theory Spec2Isabelle
  imports Complex_Main
begin

section \<open>JavaScript values, as far as the enrichment client and the scraper use them\<close>

text \<open>
  A JavaScript number is NaN, one of the two infinities, or a finite value. The finite
  values are kept as their mathematical value: rounding to the nearest double, the
  overflow of a large value to an infinity and the sign of zero are not represented.
\<close>

datatype js_number = NaN | PosInf | NegInf | Fin real

text \<open>
  The values that \<open>JSON.parse\<close> can produce, and \<open>undefined\<close>, which is what reading a
  missing property gives. An object is the list of its own properties.
\<close>

datatype js_value =
    JUndefined
  | JNull
  | JBool bool
  | JNum js_number
  | JStr string
  | JArr "js_value list"
  | JObj "(string \<times> js_value) list"

text \<open>
  What can be thrown. \<open>ApiError s\<close> is an error of the OpenAI client whose \<open>status\<close>
  property is \<open>s\<close>; every other error has no \<open>status\<close>.
\<close>

datatype js_error =
    TypeError
  | SyntaxError
  | RangeError
  | ApiError "nat option"
  | IOError
  | Error string

fun status :: "js_error \<Rightarrow> nat option" where
  "status (ApiError s) = s"
| "status _ = None"

subsection \<open>Strings\<close>

text \<open>
  A \<open>char\<close> stands for a code unit below 256. The white space of \<open>String.prototype.trim\<close>
  and of the numeric-string grammar in that range: TAB, LF, VT, FF, CR, SP, NBSP.
\<close>

definition isStrWhiteSpaceChar :: "char \<Rightarrow> bool" where
  "isStrWhiteSpaceChar c = (of_char c \<in> {9, 10, 11, 12, 13, 32, 160 :: nat})"

definition trim :: "string \<Rightarrow> string" where
  "trim s = rev (dropWhile isStrWhiteSpaceChar (rev (dropWhile isStrWhiteSpaceChar s)))"

text \<open>
  \<open>toLowerCase\<close> on the code units below 256: the capital letters A to Z, and the
  capital letters of the range 192 to 222 (all but the multiplication sign, 215), whose
  small forms are 32 further.
\<close>

definition toLowerChar :: "char \<Rightarrow> char" where
  "toLowerChar c =
     (case map_of (zip ''ABCDEFGHIJKLMNOPQRSTUVWXYZ'' ''abcdefghijklmnopqrstuvwxyz'') c of
        Some l \<Rightarrow> l
      | None \<Rightarrow>
          if 192 \<le> (of_char c :: nat) \<and> (of_char c :: nat) \<le> 222 \<and> (of_char c :: nat) \<noteq> 215
          then char_of ((of_char c :: nat) + 32)
          else c)"

definition toLowerCase :: "string \<Rightarrow> string" where
  "toLowerCase s = map toLowerChar s"

text \<open>\<open>Array.prototype.join\<close> on strings already converted.\<close>

fun join :: "string \<Rightarrow> string list \<Rightarrow> string" where
  "join sep [] = []"
| "join sep [s] = s"
| "join sep (s # t # ss) = s @ sep @ join sep (t # ss)"

text \<open>\<open>s.replace(/[$,]/g, '')\<close>: every dollar sign and comma removed.\<close>

definition stripCurrency :: "string \<Rightarrow> string" where
  "stripCurrency s = filter (\<lambda>c. c \<noteq> CHR ''$'' \<and> c \<noteq> CHR '','') s"

subsection \<open>The numeric-string grammar (\<open>StringToNumber\<close>)\<close>

definition isDecimalDigit :: "char \<Rightarrow> bool" where
  "isDecimalDigit c = (48 \<le> (of_char c :: nat) \<and> (of_char c :: nat) \<le> 57)"

text \<open>The value of a digit in a base up to 16, if the character is one.\<close>

definition digitValue :: "char \<Rightarrow> nat option" where
  "digitValue c =
     (let n = (of_char c :: nat) in
      if 48 \<le> n \<and> n \<le> 57 then Some (n - 48)
      else if 97 \<le> n \<and> n \<le> 102 then Some (n - 87)
      else if 65 \<le> n \<and> n \<le> 70 then Some (n - 55)
      else None)"

definition isDigitOf :: "nat \<Rightarrow> char \<Rightarrow> bool" where
  "isDigitOf base c = (case digitValue c of None \<Rightarrow> False | Some d \<Rightarrow> d < base)"

definition digitsValue :: "nat \<Rightarrow> string \<Rightarrow> nat" where
  "digitsValue base ds = foldl (\<lambda>acc c. acc * base + (case digitValue c of None \<Rightarrow> 0 | Some d \<Rightarrow> d)) 0 ds"

text \<open>\<open>0x\<close>, \<open>0o\<close> and \<open>0b\<close> literals: at least one digit of the base, nothing else.\<close>

definition NonDecimalIntegerLiteral :: "nat \<Rightarrow> string \<Rightarrow> js_number" where
  "NonDecimalIntegerLiteral base ds =
     (if ds \<noteq> [] \<and> list_all (isDigitOf base) ds then Fin (real (digitsValue base ds)) else NaN)"

text \<open>\<open>DecimalDigits\<close>, optionally signed.\<close>

definition SignedInteger :: "string \<Rightarrow> int option" where
  "SignedInteger s =
     (case s of
        [] \<Rightarrow> None
      | c # ds \<Rightarrow>
          if c = CHR ''+'' \<or> c = CHR ''-'' then
            (if ds \<noteq> [] \<and> list_all isDecimalDigit ds
             then Some ((if c = CHR ''-'' then - 1 else 1) * int (digitsValue 10 ds))
             else None)
          else if list_all isDecimalDigit s then Some (int (digitsValue 10 s))
          else None)"

text \<open>What follows the mantissa: nothing, or an exponent part.\<close>

definition ExponentPart :: "string \<Rightarrow> int option" where
  "ExponentPart s =
     (case s of
        [] \<Rightarrow> Some 0
      | c # t \<Rightarrow> if c = CHR ''e'' \<or> c = CHR ''E'' then SignedInteger t else None)"

definition scale10 :: "real \<Rightarrow> int \<Rightarrow> real" where
  "scale10 m e = (if 0 \<le> e then m * 10 ^ nat e else m / 10 ^ nat (- e))"

definition StrUnsignedDecimalLiteral :: "string \<Rightarrow> js_number" where
  "StrUnsignedDecimalLiteral s =
     (if s = ''Infinity'' then PosInf
      else
        let ip = takeWhile isDecimalDigit s; r = dropWhile isDecimalDigit s in
        (case r of
           [] \<Rightarrow> if ip = [] then NaN else Fin (real (digitsValue 10 ip))
         | c # t \<Rightarrow>
             if c = CHR ''.'' then
               (let fp = takeWhile isDecimalDigit t; r2 = dropWhile isDecimalDigit t in
                if ip = [] \<and> fp = [] then NaN
                else (case ExponentPart r2 of
                        None \<Rightarrow> NaN
                      | Some e \<Rightarrow>
                          Fin (scale10 (real (digitsValue 10 ip)
                                 + real (digitsValue 10 fp) / 10 ^ length fp) e)))
             else if ip = [] then NaN
             else (case ExponentPart r of
                     None \<Rightarrow> NaN
                   | Some e \<Rightarrow> Fin (scale10 (real (digitsValue 10 ip)) e))))"

fun negate :: "js_number \<Rightarrow> js_number" where
  "negate NaN = NaN"
| "negate PosInf = NegInf"
| "negate NegInf = PosInf"
| "negate (Fin r) = Fin (- r)"

definition StrDecimalLiteral :: "string \<Rightarrow> js_number" where
  "StrDecimalLiteral s =
     (case s of
        [] \<Rightarrow> NaN
      | c # t \<Rightarrow>
          if c = CHR ''+'' then StrUnsignedDecimalLiteral t
          else if c = CHR ''-'' then negate (StrUnsignedDecimalLiteral t)
          else StrUnsignedDecimalLiteral s)"

definition StringToNumber :: "string \<Rightarrow> js_number" where
  "StringToNumber s =
     (let t = trim s in
      if t = [] then Fin 0
      else if take 2 t = ''0x'' \<or> take 2 t = ''0X'' then NonDecimalIntegerLiteral 16 (drop 2 t)
      else if take 2 t = ''0o'' \<or> take 2 t = ''0O'' then NonDecimalIntegerLiteral 8 (drop 2 t)
      else if take 2 t = ''0b'' \<or> take 2 t = ''0B'' then NonDecimalIntegerLiteral 2 (drop 2 t)
      else StrDecimalLiteral t)"

subsection \<open>Conversions of values\<close>

text \<open>
  The runtime's services that the code calls and whose algorithm is outside this
  repository: the text of a number (\<open>Number.prototype.toString\<close>) and \<open>JSON.parse\<close>,
  which throws \<open>SyntaxError\<close> on text that is not JSON.
\<close>

record js_runtime =
  Number_toString :: "js_number \<Rightarrow> string"
  JSON_parse :: "string \<Rightarrow> js_error + js_value"

text \<open>All element conversions of a join, stopping at the first throw.\<close>

fun sequence :: "(js_error + 'a) list \<Rightarrow> js_error + 'a list" where
  "sequence [] = Inr []"
| "sequence (r # rs) =
     (case r of
        Inl e \<Rightarrow> Inl e
      | Inr x \<Rightarrow> (case sequence rs of Inl e \<Rightarrow> Inl e | Inr xs \<Rightarrow> Inr (x # xs)))"

text \<open>
  \<open>ToString\<close>. An array is joined with commas, \<open>null\<close> and \<open>undefined\<close> elements giving
  the empty string. An object is converted by \<open>OrdinaryToPrimitive\<close>: its \<open>toString\<close> and
  \<open>valueOf\<close> are looked up and called if callable. No value from JSON is callable, so an
  own property \<open>toString\<close> hides \<open>Object.prototype.toString\<close> and the conversion throws
  \<open>TypeError\<close>; an own \<open>valueOf\<close> is skipped, and the inherited one returns the object
  itself, which is skipped too. Without an own \<open>toString\<close> the result is
  \<open>[object Object]\<close>. Both hints (string, number) give the same result on these values.
\<close>

fun ToString :: "js_runtime \<Rightarrow> js_value \<Rightarrow> js_error + string" where
  "ToString rt JUndefined = Inr ''undefined''"
| "ToString rt JNull = Inr ''null''"
| "ToString rt (JBool b) = Inr (if b then ''true'' else ''false'')"
| "ToString rt (JNum n) = Inr (Number_toString rt n)"
| "ToString rt (JStr s) = Inr s"
| "ToString rt (JArr vs) =
     (case sequence (map (\<lambda>v. if v = JUndefined \<or> v = JNull then Inr [] else ToString rt v) vs) of
        Inl e \<Rightarrow> Inl e
      | Inr ss \<Rightarrow> Inr (join '','' ss))"
| "ToString rt (JObj kvs) =
     (if ''toString'' \<in> fst ` set kvs then Inl TypeError else Inr ''[object Object]'')"

text \<open>\<open>Number(value)\<close>.\<close>

fun Number :: "js_runtime \<Rightarrow> js_value \<Rightarrow> js_error + js_number" where
  "Number rt JUndefined = Inr NaN"
| "Number rt JNull = Inr (Fin 0)"
| "Number rt (JBool b) = Inr (Fin (if b then 1 else 0))"
| "Number rt (JNum n) = Inr n"
| "Number rt (JStr s) = Inr (StringToNumber s)"
| "Number rt v = (case ToString rt v of Inl e \<Rightarrow> Inl e | Inr s \<Rightarrow> Inr (StringToNumber s))"

text \<open>\<open>String(value)\<close>, which is \<open>ToString\<close> on every value that is not a symbol.\<close>

definition String :: "js_runtime \<Rightarrow> js_value \<Rightarrow> js_error + string" where
  "String rt v = ToString rt v"

definition isNaN :: "js_number \<Rightarrow> bool" where
  "isNaN n = (n = NaN)"

text \<open>\<open>Math.min\<close> and \<open>Math.max\<close> of two numbers.\<close>

fun Math_min :: "js_number \<Rightarrow> js_number \<Rightarrow> js_number" where
  "Math_min NaN _ = NaN"
| "Math_min _ NaN = NaN"
| "Math_min NegInf _ = NegInf"
| "Math_min _ NegInf = NegInf"
| "Math_min PosInf y = y"
| "Math_min x PosInf = x"
| "Math_min (Fin a) (Fin b) = Fin (min a b)"

fun Math_max :: "js_number \<Rightarrow> js_number \<Rightarrow> js_number" where
  "Math_max NaN _ = NaN"
| "Math_max _ NaN = NaN"
| "Math_max PosInf _ = PosInf"
| "Math_max _ PosInf = PosInf"
| "Math_max NegInf y = y"
| "Math_max x NegInf = x"
| "Math_max (Fin a) (Fin b) = Fin (max a b)"

text \<open>
  Reading a property: \<open>TypeError\<close> on \<open>null\<close> and \<open>undefined\<close>, the own property of an
  object, and \<open>undefined\<close> where there is none. The names read by this program are not
  properties of any prototype.
\<close>

fun getProp :: "js_value \<Rightarrow> string \<Rightarrow> js_error + js_value" where
  "getProp JUndefined k = Inl TypeError"
| "getProp JNull k = Inl TypeError"
| "getProp (JObj kvs) k = Inr (case map_of kvs k of None \<Rightarrow> JUndefined | Some v \<Rightarrow> v)"
| "getProp _ k = Inr JUndefined"


section \<open>The enrichment client (\<open>src/ai/openaiService.ts\<close>)\<close>

type_synonym Date = "int option"
  \<comment> \<open>the time value in milliseconds; \<open>None\<close> is an invalid date\<close>

record ListingData =
  id :: string
  url :: string
  title :: string
  price :: "js_number option"
  description :: string
  location :: string
  postedDate :: Date
  imageUrls :: "string list"
  metadata :: "(string \<times> string) list"

record AntiqueAnalysis =
  marketValue :: js_number
  pricingAssessment :: string
  pricingConfidence :: js_number
  authenticityScore :: js_number
  authenticityTips :: string
  historicalContext :: string
  additionalNotes :: string

text \<open>
  A chat completion, as far as the code reads it: \<open>choices[i].message.content\<close> for each
  choice, a string or \<open>null\<close>.
\<close>

record ChatCompletion =
  choices :: "string option list"

text \<open>
  The service object: the runtime, and what \<open>openai.chat.completions.create\<close> answers to
  the request built from a listing, at each attempt of \<open>performAnalysis\<close> (the request is
  a function of the listing and of the fixed configuration). The rate-limited queue runs
  the task it is given and passes on its result or its failure. Logging and the waiting
  between attempts have no influence on the results and are left out.
\<close>

record OpenAIService =
  runtime :: js_runtime
  chat_completions_create :: "ListingData \<Rightarrow> nat \<Rightarrow> js_error + ChatCompletion"

definition queue_add :: "(js_error + 'a) \<Rightarrow> js_error + 'a" where
  "queue_add task = task"

definition getDefaultAnalysis :: AntiqueAnalysis where
  "getDefaultAnalysis =
     \<lparr> marketValue = Fin 0,
       pricingAssessment = ''fair'',
       pricingConfidence = Fin 0,
       authenticityScore = Fin 0,
       authenticityTips = ''Analysis unavailable due to API error'',
       historicalContext = ''Analysis unavailable due to API error'',
       additionalNotes = ''Please try analyzing this item again later'' \<rparr>"

definition validateNumber :: "js_runtime \<Rightarrow> js_value \<Rightarrow> js_number \<Rightarrow> js_error + js_number" where
  "validateNumber rt v defaultValue =
     (case Number rt v of
        Inl e \<Rightarrow> Inl e
      | Inr num \<Rightarrow> Inr (if isNaN num then defaultValue else num))"

definition validateConfidence :: "js_runtime \<Rightarrow> js_value \<Rightarrow> js_error + js_number" where
  "validateConfidence rt v =
     (case Number rt v of
        Inl e \<Rightarrow> Inl e
      | Inr num \<Rightarrow> Inr (if isNaN num then Fin 0 else Math_max (Fin 0) (Math_min (Fin 1) num)))"

definition validValues :: "string list" where
  "validValues = [''underpriced'', ''overpriced'', ''fair'']"

definition validatePricingAssessment :: "js_runtime \<Rightarrow> js_value \<Rightarrow> js_error + string" where
  "validatePricingAssessment rt v =
     (case String rt v of
        Inl e \<Rightarrow> Inl e
      | Inr s \<Rightarrow>
          (let stringValue = toLowerCase s in
           if stringValue \<in> set validValues then Inr stringValue else Inr ''fair''))"

definition validateString :: "js_value \<Rightarrow> string \<Rightarrow> string" where
  "validateString v defaultValue =
     (case v of
        JStr s \<Rightarrow> if trim s \<noteq> [] then trim s else defaultValue
      | _ \<Rightarrow> defaultValue)"

text \<open>Sequencing of steps that may throw.\<close>

definition andThen :: "(js_error + 'a) \<Rightarrow> ('a \<Rightarrow> js_error + 'b) \<Rightarrow> js_error + 'b" where
  "andThen r f = (case r of Inl e \<Rightarrow> Inl e | Inr x \<Rightarrow> f x)"

text \<open>
  The body of the \<open>try\<close> block of \<open>parseResponse\<close>: the fields are read and validated in
  the order of the object literal.
\<close>

definition parseFields :: "js_runtime \<Rightarrow> string \<Rightarrow> js_error + AntiqueAnalysis" where
  "parseFields rt responseContent =
     andThen (JSON_parse rt responseContent) (\<lambda>parsed.
     andThen (getProp parsed ''marketValue'') (\<lambda>v1.
     andThen (validateNumber rt v1 (Fin 0)) (\<lambda>mv.
     andThen (getProp parsed ''pricingAssessment'') (\<lambda>v2.
     andThen (validatePricingAssessment rt v2) (\<lambda>pa.
     andThen (getProp parsed ''pricingConfidence'') (\<lambda>v3.
     andThen (validateConfidence rt v3) (\<lambda>pc.
     andThen (getProp parsed ''authenticityScore'') (\<lambda>v4.
     andThen (validateConfidence rt v4) (\<lambda>au.
     andThen (getProp parsed ''authenticityTips'') (\<lambda>v5.
     andThen (getProp parsed ''historicalContext'') (\<lambda>v6.
     andThen (getProp parsed ''additionalNotes'') (\<lambda>v7.
       Inr \<lparr> marketValue = mv,
             pricingAssessment = pa,
             pricingConfidence = pc,
             authenticityScore = au,
             authenticityTips = validateString v5 ''No specific tips provided'',
             historicalContext = validateString v6 ''No historical context available'',
             additionalNotes = validateString v7 ''No additional notes'' \<rparr>))))))))))))"

definition parseResponse :: "js_runtime \<Rightarrow> string option \<Rightarrow> AntiqueAnalysis" where
  "parseResponse rt responseContent =
     (case responseContent of
        None \<Rightarrow> getDefaultAnalysis
      | Some content \<Rightarrow>
          if content = [] then getDefaultAnalysis
          else (case parseFields rt content of
                  Inl e \<Rightarrow> getDefaultAnalysis
                | Inr validatedAnalysis \<Rightarrow> validatedAnalysis))"

definition maxRetries :: nat where
  "maxRetries = 3"

text \<open>
  One pass through the \<open>try\<close> block of the retry loop: the API call, then
  \<open>response.choices[0].message.content\<close>, which throws \<open>TypeError\<close> when there is no first
  choice, then \<open>parseResponse\<close>.
\<close>

definition attemptAnalysis :: "OpenAIService \<Rightarrow> ListingData \<Rightarrow> nat \<Rightarrow> js_error + AntiqueAnalysis" where
  "attemptAnalysis svc listing attempt =
     andThen (chat_completions_create svc listing attempt) (\<lambda>response.
       (case choices response of
          [] \<Rightarrow> Inl TypeError
        | content # _ \<Rightarrow> Inr (parseResponse (runtime svc) content)))"

text \<open>The \<open>for\<close> loop of \<open>performAnalysis\<close>, from attempt number \<open>attempt\<close> on.\<close>

function performAnalysis_from :: "OpenAIService \<Rightarrow> ListingData \<Rightarrow> nat \<Rightarrow> js_error + AntiqueAnalysis" where
  "performAnalysis_from svc listing attempt =
     (if attempt < maxRetries then
        (case attemptAnalysis svc listing attempt of
           Inr analysis \<Rightarrow> Inr analysis
         | Inl error \<Rightarrow>
             if status error = Some 429 then performAnalysis_from svc listing (attempt + 1)
             else if attempt = maxRetries - 1 then Inl error
             else performAnalysis_from svc listing (attempt + 1))
      else Inl (Error ''Failed to analyze antique after 3 attempts''))"
  by pat_completeness auto
termination
  by (relation "measure (\<lambda>(svc, listing, attempt). maxRetries - attempt)") auto

declare performAnalysis_from.simps [simp del]

definition performAnalysis :: "OpenAIService \<Rightarrow> ListingData \<Rightarrow> js_error + AntiqueAnalysis" where
  "performAnalysis svc listing = performAnalysis_from svc listing 0"

definition analyzeAntique :: "OpenAIService \<Rightarrow> ListingData \<Rightarrow> AntiqueAnalysis" where
  "analyzeAntique svc listing =
     (case queue_add (performAnalysis svc listing) of
        Inr analysis \<Rightarrow> analysis
      | Inl error \<Rightarrow> getDefaultAnalysis)"


section \<open>The scraper (\<open>src/scraper/craigslistScraper.ts\<close>)\<close>

record CraigslistConfig =
  baseUrl :: string
  antiques :: string
  resultsPerPage :: nat
  maxPages :: nat
  userAgent :: string

subsection \<open>Collecting the listing URLs\<close>

text \<open>
  What the browser does with the page opened for one page of search results: the error
  thrown by \<open>browser.newPage()\<close> or \<open>configurePageDefaults\<close>, if any; the error thrown by
  \<open>page.goto\<close>, if any; what the two \<open>page.evaluate\<close> calls give; and the error thrown
  by the first, second, ... call of \<open>page.close()\<close>, if any.
\<close>

record SearchPage =
  search_newPage :: "js_error option"
  search_goto :: "js_error option"
  evaluateNoResults :: "js_error + bool"
  evaluateListingUrls :: "js_error + string list"
  search_close :: "nat \<Rightarrow> js_error option"

text \<open>
  The state of the collection: the \<open>Set\<close> of URLs in insertion order, and two traces of
  what was done, the arguments of \<open>listingUrls.add\<close> in call order and the numbers of the
  result pages passed to \<open>page.goto\<close>.
\<close>

record CollectState =
  listingUrls :: "string list"
  addCalls :: "string list"
  gotoCalls :: "nat list"

definition Set_add :: "'a list \<Rightarrow> 'a \<Rightarrow> 'a list" where
  "Set_add xs x = (if x \<in> set xs then xs else xs @ [x])"

definition addUrl :: "CollectState \<Rightarrow> string \<Rightarrow> CollectState" where
  "addUrl st u = st\<lparr>listingUrls := Set_add (listingUrls st) u, addCalls := addCalls st @ [u]\<rparr>"

datatype loop_exit = Continue | Break

text \<open>
  The inner \<open>try\<close> block for one result page. The third component counts the calls of
  \<open>page.close()\<close> made in the block.
\<close>

definition searchTry :: "CraigslistConfig \<Rightarrow> SearchPage \<Rightarrow> CollectState
    \<Rightarrow> (js_error + loop_exit) \<times> CollectState \<times> nat" where
  "searchTry cfg pg st =
     (case search_goto pg of
        Some e \<Rightarrow> (Inl e, st, 0)
      | None \<Rightarrow>
     (case evaluateNoResults pg of
        Inl e \<Rightarrow> (Inl e, st, 0)
      | Inr noResults \<Rightarrow>
          if noResults then
            (case search_close pg 0 of
               Some e \<Rightarrow> (Inl e, st, 1)
             | None \<Rightarrow> (Inr Break, st, 1))
          else
            (case evaluateListingUrls pg of
               Inl e \<Rightarrow> (Inl e, st, 0)
             | Inr pageListingUrls \<Rightarrow>
                 (let st' = foldl addUrl st pageListingUrls in
                  case search_close pg 0 of
                    Some e \<Rightarrow> (Inl e, st', 1)
                  | None \<Rightarrow>
                      if length pageListingUrls < resultsPerPage cfg
                      then (Inr Break, st', 1)
                      else (Inr Continue, st', 1)))))"

text \<open>
  One iteration of the \<open>for\<close> loop. An error of \<open>newPage\<close> is thrown outside the inner
  \<open>try\<close>; the inner \<open>catch\<close> logs and closes the page, and an error of that
  \<open>page.close()\<close> leaves the loop as well.
\<close>

definition searchIteration :: "CraigslistConfig \<Rightarrow> SearchPage \<Rightarrow> nat \<Rightarrow> CollectState
    \<Rightarrow> (js_error + loop_exit) \<times> CollectState" where
  "searchIteration cfg pg pageNum st =
     (case search_newPage pg of
        Some e \<Rightarrow> (Inl e, st)
      | None \<Rightarrow>
          (case searchTry cfg pg (st\<lparr>gotoCalls := gotoCalls st @ [pageNum]\<rparr>) of
             (Inr exit, st', closes) \<Rightarrow> (Inr exit, st')
           | (Inl error, st', closes) \<Rightarrow>
               (case search_close pg closes of
                  Some e \<Rightarrow> (Inl e, st')
                | None \<Rightarrow> (Inr Continue, st'))))"

text \<open>The \<open>for\<close> loop over the result pages, from page number \<open>pageNum\<close> on.\<close>

function collectFrom :: "CraigslistConfig \<Rightarrow> (nat \<Rightarrow> SearchPage) \<Rightarrow> nat \<Rightarrow> CollectState
    \<Rightarrow> js_error option \<times> CollectState" where
  "collectFrom cfg pages pageNum st =
     (if pageNum < maxPages cfg then
        (case searchIteration cfg (pages pageNum) pageNum st of
           (Inl e, st') \<Rightarrow> (Some e, st')
         | (Inr Break, st') \<Rightarrow> (None, st')
         | (Inr Continue, st') \<Rightarrow> collectFrom cfg pages (pageNum + 1) st')
      else (None, st))"
  by pat_completeness auto
termination
  by (relation "measure (\<lambda>(cfg, pages, pageNum, st). maxPages cfg - pageNum)") auto

declare collectFrom.simps [simp del]

definition collectListingUrls :: "CraigslistConfig \<Rightarrow> (nat \<Rightarrow> SearchPage)
    \<Rightarrow> js_error option \<times> CollectState" where
  "collectListingUrls cfg pages =
     collectFrom cfg pages 0 \<lparr>listingUrls = [], addCalls = [], gotoCalls = []\<rparr>"

subsection \<open>Fetching one listing\<close>

text \<open>
  The document of a listing page, as far as the extraction reads it: the \<open>textContent\<close> of
  the first element matching a selector, the \<open>data-src\<close> attribute of each thumbnail, and
  the \<open>textContent\<close> of the spans of each attribute group.
\<close>

record DetailDom =
  textContent :: "string \<Rightarrow> string option"
  thumbs :: "string option list"
  attrgroups :: "string list list"

text \<open>
  What the browser does with the page opened for one listing. \<open>Date_parse\<close> is the
  browser's parser behind \<open>new Date(text)\<close>, \<open>Date_now\<close> its clock at the time of the
  extraction; \<open>detail_evaluate\<close> is an error of \<open>page.evaluate\<close> other than one thrown by
  the extraction script itself.
\<close>

record DetailPage =
  detail_newPage :: "js_error option"
  detail_goto :: "js_error option"
  evaluateIsDeleted :: "js_error + bool"
  detail_evaluate :: "js_error option"
  dom :: DetailDom
  Date_parse :: "string \<Rightarrow> Date"
  Date_now :: int
  detail_close :: "nat \<Rightarrow> js_error option"

definition getText :: "DetailDom \<Rightarrow> string \<Rightarrow> string" where
  "getText d selector = (case textContent d selector of None \<Rightarrow> [] | Some t \<Rightarrow> trim t)"

text \<open>\<open>s.replace(pat, rep)\<close> with a string pattern: the first occurrence only.\<close>

fun replaceFirst :: "string \<Rightarrow> string \<Rightarrow> string \<Rightarrow> string" where
  "replaceFirst pat rep [] = (if pat = [] then rep else [])"
| "replaceFirst pat rep (c # s) =
     (if take (length pat) (c # s) = pat then rep @ drop (length pat) (c # s)
      else c # replaceFirst pat rep s)"

fun splitOn :: "char \<Rightarrow> string \<Rightarrow> string list" where
  "splitOn sep [] = [[]]"
| "splitOn sep (c # s) =
     (if c = sep then [] # splitOn sep s
      else (case splitOn sep s of [] \<Rightarrow> [[c]] | p # ps \<Rightarrow> (c # p) # ps))"

text \<open>
  Setting a property of the metadata object. The object is kept as the list of its
  properties in the order in which they were first set; that JavaScript enumerates
  integer-like keys first, and that the key \<open>__proto__\<close> is not stored as a property, is
  not represented.
\<close>

fun setProp :: "string \<Rightarrow> 'v \<Rightarrow> (string \<times> 'v) list \<Rightarrow> (string \<times> 'v) list" where
  "setProp k v [] = [(k, v)]"
| "setProp k v (p # ps) = (if fst p = k then (k, v) # ps else p # setProp k v ps)"

definition extractImageUrls :: "string option list \<Rightarrow> string list" where
  "extractImageUrls ts =
     concat (map (\<lambda>dataSrc. case dataSrc of
                     None \<Rightarrow> []
                   | Some src \<Rightarrow> if src = [] then [] else [replaceFirst ''50x50c'' ''600x450'' src]) ts)"

definition addSpan :: "(string \<times> string) list \<Rightarrow> string \<Rightarrow> (string \<times> string) list" where
  "addSpan md spanText =
     (let text = trim spanText in
      if text \<noteq> [] \<and> CHR '':'' \<in> set text then
        (case map trim (splitOn CHR '':'' text) of
           key # value # _ \<Rightarrow> setProp key value md
         | _ \<Rightarrow> md)
      else if text \<noteq> [] then setProp text ''true'' md
      else md)"

definition extractMetadata :: "string list list \<Rightarrow> (string \<times> string) list" where
  "extractMetadata groups = foldl addSpan [] (concat groups)"

text \<open>
  \<open>toISOString\<close> throws \<open>RangeError\<close> on an invalid date. The text it returns is
  represented by the time value it denotes, which is what \<open>new Date(text)\<close> gives back.
\<close>

definition toISOString :: "Date \<Rightarrow> js_error + int" where
  "toISOString d = (case d of None \<Rightarrow> Inl RangeError | Some t \<Rightarrow> Inr t)"

record RawListing =
  raw_title :: string
  raw_price :: "js_number option"
  raw_description :: string
  raw_location :: string
  raw_postedDate :: int
  raw_imageUrls :: "string list"
  raw_metadata :: "(string \<times> string) list"

text \<open>The function evaluated in the page to extract the listing.\<close>

definition extractListing :: "DetailPage \<Rightarrow> js_error + RawListing" where
  "extractListing pg =
     (let d = dom pg;
          priceText = getText d ''.price'';
          price = (if priceText \<noteq> [] then Some (StringToNumber (stripCurrency priceText)) else None);
          title = getText d ''#titletextonly'';
          dateText = getText d ''.date.timeago'';
          postedDate = (if dateText \<noteq> [] then Date_parse pg dateText else Some (Date_now pg));
          location = (if getText d ''.mapaddress'' \<noteq> [] then getText d ''.mapaddress''
                      else getText d ''.mapbox small'');
          description = getText d ''#postingbody'';
          imageUrls = extractImageUrls (thumbs d);
          metadata = extractMetadata (attrgroups d)
      in andThen (toISOString postedDate) (\<lambda>iso.
           Inr \<lparr> raw_title = title, raw_price = price, raw_description = description,
                 raw_location = location, raw_postedDate = iso, raw_imageUrls = imageUrls,
                 raw_metadata = metadata \<rparr>))"

text \<open>
  The \<open>try\<close> block of \<open>scrapeListingPage\<close>; the second component counts the calls of
  \<open>page.close()\<close> made in the block. \<open>newId\<close> is the identifier that \<open>uuidv4()\<close> returns.
\<close>

definition detailTry :: "DetailPage \<Rightarrow> string \<Rightarrow> string \<Rightarrow> (js_error + ListingData option) \<times> nat" where
  "detailTry pg newId u =
     (case detail_goto pg of
        Some e \<Rightarrow> (Inl e, 0)
      | None \<Rightarrow>
     (case evaluateIsDeleted pg of
        Inl e \<Rightarrow> (Inl e, 0)
      | Inr isDeleted \<Rightarrow>
          if isDeleted then
            (case detail_close pg 0 of
               Some e \<Rightarrow> (Inl e, 1)
             | None \<Rightarrow> (Inr None, 1))
          else
            (case detail_evaluate pg of
               Some e \<Rightarrow> (Inl e, 0)
             | None \<Rightarrow>
            (case extractListing pg of
               Inl e \<Rightarrow> (Inl e, 0)
             | Inr listingData \<Rightarrow>
                 (case detail_close pg 0 of
                    Some e \<Rightarrow> (Inl e, 1)
                  | None \<Rightarrow>
                      (Inr (Some \<lparr> id = newId,
                                   url = u,
                                   title = raw_title listingData,
                                   price = raw_price listingData,
                                   description = raw_description listingData,
                                   location = raw_location listingData,
                                   postedDate = Some (raw_postedDate listingData),
                                   imageUrls = raw_imageUrls listingData,
                                   metadata = raw_metadata listingData \<rparr>), 1))))))"

text \<open>
  The services of Node and of its libraries that the scraper calls: \<open>uuidv4()\<close> (its
  n-th result), the \<open>pathname\<close> of \<open>new URL(url)\<close>, which throws \<open>TypeError\<close> on an invalid
  URL, \<open>path.extname\<close> and \<open>path.join\<close>.
\<close>

record NodeRuntime =
  uuidv4 :: "nat \<Rightarrow> string"
  URL_pathname :: "string \<Rightarrow> js_error + string"
  path_extname :: "string \<Rightarrow> string"
  path_join :: "string \<Rightarrow> string \<Rightarrow> string"

record Browser =
  searchPage :: "nat \<Rightarrow> SearchPage"
  detailPage :: "string \<Rightarrow> DetailPage"

text \<open>A file system: the bytes stored at each path.\<close>

type_synonym FileSystem = "string \<Rightarrow> nat list option"

text \<open>
  The answer to an HTTP request with \<open>responseType: 'stream'\<close>: the headers, the bytes
  that the body stream delivers, and the error with which the stream ends, if any.
\<close>

record HttpResponse =
  headers :: "string \<Rightarrow> string option"
  body :: "nat list"
  streamError :: "js_error option"

text \<open>
  What happens around one download: the answer of \<open>axios\<close> or its failure, and the errors,
  if any, of opening the file for writing, of \<open>fs.promises.stat\<close> and of
  \<open>fs.promises.unlink\<close>.
\<close>

record Download =
  axios :: "js_error + HttpResponse"
  openError :: "js_error option"
  statError :: "js_error option"
  unlinkError :: "js_error option"

record CraigslistScraper =
  browser :: "Browser option"
  craigslistConfig :: CraigslistConfig
  imageDir :: string
  nodeRuntime :: NodeRuntime
  download :: "nat \<Rightarrow> string \<Rightarrow> Download"

definition scrapeListingPage :: "CraigslistScraper \<Rightarrow> nat \<Rightarrow> string \<Rightarrow> js_error + ListingData option" where
  "scrapeListingPage scraper n u =
     (case browser scraper of
        None \<Rightarrow> Inl (Error ''Browser not initialized'')
      | Some b \<Rightarrow>
          (let pg = detailPage b u in
           case detail_newPage pg of
             Some e \<Rightarrow> Inl e
           | None \<Rightarrow>
               (case detailTry pg (uuidv4 (nodeRuntime scraper) n) u of
                  (Inr result, closes) \<Rightarrow> Inr result
                | (Inl error, closes) \<Rightarrow>
                    (case detail_close pg closes of
                       Some e \<Rightarrow> Inl e
                     | None \<Rightarrow> Inr None))))"

text \<open>
  The results of \<open>Promise.allSettled\<close> that are fulfilled with a value other than \<open>null\<close>,
  in order.
\<close>

fun fulfilledValues :: "(js_error + 'a option) list \<Rightarrow> 'a list" where
  "fulfilledValues [] = []"
| "fulfilledValues (Inr (Some x) # rs) = x # fulfilledValues rs"
| "fulfilledValues (_ # rs) = fulfilledValues rs"



subsection \<open>Downloading the images\<close>

record ImageData =
  image_id :: string
  listingId :: string
  filename :: string
  originalUrl :: string
  localPath :: string
  contentType :: string
  size :: js_number

text \<open>
  \<open>parseInt(s, 10)\<close>: leading white space is skipped, a sign is read, and the longest
  prefix of decimal digits is the value; there is none without a digit.
\<close>

definition parseInt10 :: "string \<Rightarrow> js_number" where
  "parseInt10 s =
     (let t = dropWhile isStrWhiteSpaceChar s;
          neg = (t \<noteq> [] \<and> hd t = CHR ''-'');
          u = (if t \<noteq> [] \<and> (hd t = CHR ''+'' \<or> hd t = CHR ''-'') then tl t else t);
          ds = takeWhile isDecimalDigit u
      in if ds = [] then NaN
         else Fin (if neg then - real (digitsValue 10 ds) else real (digitsValue 10 ds)))"

definition getFileExtension :: "NodeRuntime \<Rightarrow> string \<Rightarrow> js_error + string" where
  "getFileExtension rt u =
     andThen (URL_pathname rt u) (\<lambda>pathname.
       (let extension = path_extname rt pathname in
        Inr (if extension \<noteq> [] then extension else ''.jpg'')))"

text \<open>
  Streaming the body into a file opened for writing: nothing is created when the file
  cannot be opened; otherwise the file holds the bytes delivered, whether the stream then
  ends normally or with an error.
\<close>

definition pipelineAsync :: "Download \<Rightarrow> HttpResponse \<Rightarrow> string \<Rightarrow> FileSystem
    \<Rightarrow> (js_error + unit) \<times> FileSystem" where
  "pipelineAsync d response path files =
     (case openError d of
        Some e \<Rightarrow> (Inl e, files)
      | None \<Rightarrow>
          (case streamError response of
             Some e \<Rightarrow> (Inl e, files(path \<mapsto> body response))
           | None \<Rightarrow> (Inr (), files(path \<mapsto> body response))))"

definition fs_stat_size :: "Download \<Rightarrow> string \<Rightarrow> FileSystem \<Rightarrow> js_error + nat" where
  "fs_stat_size d path files =
     (case statError d of
        Some e \<Rightarrow> Inl e
      | None \<Rightarrow> (case files path of None \<Rightarrow> Inl IOError | Some bytes \<Rightarrow> Inr (length bytes)))"

definition fs_existsSync :: "string \<Rightarrow> FileSystem \<Rightarrow> bool" where
  "fs_existsSync path files = (files path \<noteq> None)"

definition fs_unlink :: "Download \<Rightarrow> string \<Rightarrow> FileSystem \<Rightarrow> (js_error + unit) \<times> FileSystem" where
  "fs_unlink d path files =
     (case unlinkError d of
        Some e \<Rightarrow> (Inl e, files)
      | None \<Rightarrow>
          (case files path of
             None \<Rightarrow> (Inl IOError, files)
           | Some bytes \<Rightarrow> (Inr (), files(path := None))))"

text \<open>The name under which an image is stored, computed before the \<open>try\<close> block.\<close>

definition imageFilename :: "CraigslistScraper \<Rightarrow> nat \<Rightarrow> string \<Rightarrow> string \<Rightarrow> js_error + string" where
  "imageFilename scraper n u lid =
     andThen (getFileExtension (nodeRuntime scraper) u) (\<lambda>extension.
       Inr (lid @ ''_'' @ uuidv4 (nodeRuntime scraper) n @ extension))"

definition imageLocalPath :: "CraigslistScraper \<Rightarrow> nat \<Rightarrow> string \<Rightarrow> string \<Rightarrow> js_error + string" where
  "imageLocalPath scraper n u lid =
     andThen (imageFilename scraper n u lid) (\<lambda>name.
       Inr (path_join (nodeRuntime scraper) (imageDir scraper) name))"

text \<open>The \<open>try\<close> block of \<open>downloadImage\<close>.\<close>

definition downloadTry :: "CraigslistScraper \<Rightarrow> nat \<Rightarrow> string \<Rightarrow> string \<Rightarrow> string \<Rightarrow> string
    \<Rightarrow> FileSystem \<Rightarrow> (js_error + ImageData) \<times> FileSystem" where
  "downloadTry scraper n u lid name path files =
     (let d = download scraper n u in
      case axios d of
        Inl e \<Rightarrow> (Inl e, files)
      | Inr response \<Rightarrow>
          (let ctype = (case headers response ''content-type'' of
                          None \<Rightarrow> ''image/jpeg''
                        | Some h \<Rightarrow> if h \<noteq> [] then h else ''image/jpeg'');
               contentLength = parseInt10 (case headers response ''content-length'' of
                                             None \<Rightarrow> ''0''
                                           | Some h \<Rightarrow> if h \<noteq> [] then h else ''0'')
           in case pipelineAsync d response path files of
                (Inl e, files') \<Rightarrow> (Inl e, files')
              | (Inr _, files') \<Rightarrow>
                  (case fs_stat_size d path files' of
                     Inl e \<Rightarrow> (Inl e, files')
                   | Inr stats_size \<Rightarrow>
                       (Inr \<lparr> image_id = uuidv4 (nodeRuntime scraper) n,
                              listingId = lid,
                              filename = name,
                              originalUrl = u,
                              localPath = path,
                              contentType = ctype,
                              size = (if stats_size \<noteq> 0 then Fin (real stats_size)
                                      else contentLength) \<rparr>,
                        files'))))"

text \<open>
  \<open>downloadImage\<close> for the n-th URL of a listing: the result, and the file system it
  leaves. The \<open>catch\<close> block removes the file if it exists, an error of the removal being
  logged only, and returns \<open>null\<close>.
\<close>

definition downloadImage :: "CraigslistScraper \<Rightarrow> nat \<Rightarrow> string \<Rightarrow> string \<Rightarrow> FileSystem
    \<Rightarrow> (js_error + ImageData option) \<times> FileSystem" where
  "downloadImage scraper n u lid files =
     (case imageFilename scraper n u lid of
        Inl e \<Rightarrow> (Inl e, files)
      | Inr name \<Rightarrow>
          (let path = path_join (nodeRuntime scraper) (imageDir scraper) name in
           case downloadTry scraper n u lid name path files of
             (Inr imageData, files') \<Rightarrow> (Inr (Some imageData), files')
           | (Inl error, files') \<Rightarrow>
               (if fs_existsSync path files'
                then (Inr None, snd (fs_unlink (download scraper n u) path files'))
                else (Inr None, files'))))"

text \<open>
  The downloads of a listing, one after the other in the order of the URLs, each task
  passing through the image queue.
\<close>

fun downloadAll :: "CraigslistScraper \<Rightarrow> nat \<Rightarrow> string list \<Rightarrow> string \<Rightarrow> FileSystem
    \<Rightarrow> (js_error + ImageData option) list \<times> FileSystem" where
  "downloadAll scraper n [] lid files = ([], files)"
| "downloadAll scraper n (u # us) lid files =
     (case downloadImage scraper n u lid files of
        (r, files') \<Rightarrow>
          (case downloadAll scraper (n + 1) us lid files' of
             (rs, files'') \<Rightarrow> (queue_add r # rs, files'')))"

definition downloadImages :: "CraigslistScraper \<Rightarrow> string list \<Rightarrow> string \<Rightarrow> FileSystem
    \<Rightarrow> ImageData list \<times> FileSystem" where
  "downloadImages scraper urls lid files =
     (case downloadAll scraper 0 urls lid files of
        (results, files') \<Rightarrow> (fulfilledValues results, files'))"


section \<open>Notions used in the statements\<close>


text \<open>
  The values whose conversion to a primitive completes: every value but an object with an
  own property \<open>toString\<close> and an array that holds, at any depth of arrays, such an
  object. What an object holds in its properties plays no role.
\<close>

fun coercible :: "js_value \<Rightarrow> bool" where
  "coercible (JArr vs) = list_all coercible vs"
| "coercible (JObj kvs) = (''toString'' \<notin> fst ` set kvs)"
| "coercible _ = True"

definition inUnitInterval :: "js_number \<Rightarrow> bool" where
  "inUnitInterval n = (case n of Fin r \<Rightarrow> 0 \<le> r \<and> r \<le> 1 | _ \<Rightarrow> False)"


subsection \<open>Example environments\<close>

definition example_runtime :: js_runtime where
  "example_runtime =
     \<lparr> Number_toString = (\<lambda>n. if n = Fin 5 then ''5'' else ''NaN''),
       JSON_parse = (\<lambda>s. if s = ''{\"marketValue\":\"$1,250\"}''
                          then Inr (JObj [(''marketValue'', JStr ''$1,250'')])
                          else if s = ''null'' then Inr JNull
                          else Inl SyntaxError) \<rparr>"

definition example_listing :: ListingData where
  "example_listing =
     \<lparr> id = ''id-1'', url = ''https://newyork.craigslist.org/ata/1.html'', title = ''Oak chair'',
       price = Some (Fin 40), description = ''A chair'', location = ''Brooklyn'',
       postedDate = Some 0, imageUrls = [], metadata = [] \<rparr>"

text \<open>A service whose API answers every attempt with status 500, and one with status 429.\<close>

definition example_service_down :: OpenAIService where
  "example_service_down =
     \<lparr> runtime = example_runtime,
       chat_completions_create = (\<lambda>listing attempt. Inl (ApiError (Some 500))) \<rparr>"

definition example_service_limited :: OpenAIService where
  "example_service_limited =
     \<lparr> runtime = example_runtime,
       chat_completions_create = (\<lambda>listing attempt. Inl (ApiError (Some 429))) \<rparr>"

subsection \<open>Notions about the scraper\<close>

text \<open>
  A result page that is processed without any error and yields fewer URLs than the
  configured page size.
\<close>

definition endsPagination :: "CraigslistConfig \<Rightarrow> SearchPage \<Rightarrow> bool" where
  "endsPagination cfg pg =
     (search_newPage pg = None \<and> search_goto pg = None \<and> evaluateNoResults pg = Inr False
      \<and> (case evaluateListingUrls pg of
            Inl e \<Rightarrow> False
          | Inr us \<Rightarrow> length us < resultsPerPage cfg)
      \<and> search_close pg 0 = None)"



text \<open>The text from which \<open>contentLength\<close> is parsed.\<close>

definition contentLengthHeader :: "HttpResponse \<Rightarrow> string" where
  "contentLengthHeader response =
     (case headers response ''content-length'' of
        None \<Rightarrow> ''0''
      | Some h \<Rightarrow> if h \<noteq> [] then h else ''0'')"

text \<open>
  The result of the n-th download of a listing; it does not depend on the files present
  before (lemma \<open>downloadImage_result_independent\<close> below).
\<close>

definition downloadOutcome :: "CraigslistScraper \<Rightarrow> nat \<Rightarrow> string \<Rightarrow> string
    \<Rightarrow> js_error + ImageData option" where
  "downloadOutcome scraper n u lid = fst (downloadImage scraper n u lid Map.empty)"

text \<open>
  A download that fails: the request fails, or the file cannot be opened, or the stream of
  the body ends with an error, or \<open>stat\<close> fails. A download succeeds when the URL parses
  and none of these happens.
\<close>

definition downloadFails :: "Download \<Rightarrow> bool" where
  "downloadFails d =
     (case axios d of
        Inl e \<Rightarrow> True
      | Inr response \<Rightarrow>
          openError d \<noteq> None \<or> streamError response \<noteq> None \<or> statError d \<noteq> None)"

definition downloadSucceeds :: "CraigslistScraper \<Rightarrow> nat \<Rightarrow> string \<Rightarrow> bool" where
  "downloadSucceeds scraper n u =
     (\<not> isl (URL_pathname (nodeRuntime scraper) u) \<and> \<not> downloadFails (download scraper n u))"


subsection \<open>Example environments of the scraper\<close>

definition example_config :: CraigslistConfig where
  "example_config =
     \<lparr> baseUrl = ''https://newyork.craigslist.org'', antiques = ''/d/search/ata'',
       resultsPerPage = 2, maxPages = 10, userAgent = ''Mozilla/5.0'' \<rparr>"

definition resultsPage :: "string list \<Rightarrow> SearchPage" where
  "resultsPage us =
     \<lparr> search_newPage = None, search_goto = None, evaluateNoResults = Inr False,
       evaluateListingUrls = Inr us, search_close = (\<lambda>n. None) \<rparr>"

definition timeoutPage :: SearchPage where
  "timeoutPage = (resultsPage [])\<lparr>search_goto := Some (Error ''Navigation timeout'')\<rparr>"

text \<open>A page of a browser that is gone: navigation fails, and so does closing the page.\<close>

definition crashedPage :: SearchPage where
  "crashedPage =
     (resultsPage [])\<lparr>search_goto := Some (Error ''Navigation failed''),
                       search_close := (\<lambda>n. Some (Error ''Target closed''))\<rparr>"

text \<open>Two result pages that both list \<open>u2\<close>; the second is shorter than the page size.\<close>

definition example_pages :: "nat \<Rightarrow> SearchPage" where
  "example_pages n = (if n = 0 then resultsPage [''u1'', ''u2''] else resultsPage [''u2''])"


text \<open>
  A first page with one URL, fewer than the page size, whose first \<open>page.close()\<close>
  throws and whose second returns.
\<close>

definition example_pages_close :: "nat \<Rightarrow> SearchPage" where
  "example_pages_close n =
     (if n = 0
      then (resultsPage [''u1''])\<lparr>search_close :=
             (\<lambda>k. if k = 0 then Some (Error ''Protocol error'') else None)\<rparr>
      else resultsPage [''u2''])"


definition removedListing :: DetailPage where
  "removedListing =
     \<lparr> detail_newPage = None, detail_goto = None, evaluateIsDeleted = Inr True,
       detail_evaluate = None,
       dom = \<lparr>textContent = (\<lambda>selector. None), thumbs = [], attrgroups = []\<rparr>,
       Date_parse = (\<lambda>text. None), Date_now = 1700000000000,
       detail_close = (\<lambda>n. None) \<rparr>"

text \<open>
  A listing page whose posting-date element has the given text (none when absent). The
  browser's date parser understands one format only.
\<close>

definition listingPage :: "string option \<Rightarrow> DetailPage" where
  "listingPage dateText =
     \<lparr> detail_newPage = None, detail_goto = None, evaluateIsDeleted = Inr False,
       detail_evaluate = None,
       dom = \<lparr> textContent = (\<lambda>selector.
                  if selector = ''.date.timeago'' then dateText
                  else if selector = ''#titletextonly'' then Some '' Oak chair ''
                  else if selector = ''.price'' then Some ''$1,250''
                  else None),
               thumbs = [Some ''https://images.craigslist.org/a_50x50c.jpg'', None],
               attrgroups = [[''condition: good'', ''antique'']] \<rparr>,
       Date_parse = (\<lambda>text. if text = ''2024-01-15 10:30'' then Some 1705314600000 else None),
       Date_now = 1700000000000,
       detail_close = (\<lambda>n. None) \<rparr>"

definition example_node :: NodeRuntime where
  "example_node =
     \<lparr> uuidv4 = (\<lambda>n. if n = 0 then ''a0'' else if n = 1 then ''a1'' else ''a2''),
       URL_pathname = (\<lambda>u. if u = ''not a url'' then Inl TypeError else Inr u),
       path_extname = (\<lambda>p. if p = ''/img/1.png'' then ''.png'' else []),
       path_join = (\<lambda>dir name. dir @ ''/'' @ name) \<rparr>"

definition example_scraper :: CraigslistScraper where
  "example_scraper =
     \<lparr> browser = Some \<lparr>searchPage = example_pages, detailPage = (\<lambda>u. removedListing)\<rparr>,
       craigslistConfig = example_config,
       imageDir = ''/data/images'',
       nodeRuntime = example_node,
       download = (\<lambda>n u. \<lparr>axios = Inl IOError, openError = None, statError = None,
                            unlinkError = None\<rparr>) \<rparr>"





definition example_detail_scraper :: CraigslistScraper where
  "example_detail_scraper =
     example_scraper\<lparr>browser := Some \<lparr> searchPage = example_pages,
       detailPage = (\<lambda>u. if u = ''https://cl/dated'' then listingPage (Some ''2024-01-15 10:30'')
                          else if u = ''https://cl/undated'' then listingPage None
                          else listingPage (Some ''about a week ago'')) \<rparr>\<rparr>"

text \<open>
  Downloads: a complete image whose header misreports the length, an empty body with a
  length header of 20, a body cut off after two bytes, and a request that times out. The
  removal of a file fails for the download number 7.
\<close>

definition imageResponse :: "nat list \<Rightarrow> string \<Rightarrow> HttpResponse" where
  "imageResponse bytes len =
     \<lparr> headers = (\<lambda>h. if h = ''content-length'' then Some len
                       else if h = ''content-type'' then Some ''image/png'' else None),
       body = bytes, streamError = None \<rparr>"

definition example_download :: "nat \<Rightarrow> string \<Rightarrow> Download" where
  "example_download n u =
     \<lparr> axios = (if u = ''https://img/ok'' then Inr (imageResponse [1, 2, 3] ''999'')
                else if u = ''https://img/empty'' then Inr (imageResponse [] ''20'')
                else if u = ''https://img/cut'' then
                  Inr ((imageResponse [1, 2] ''3'')\<lparr>streamError := Some (Error ''aborted'')\<rparr>)
                else Inl (Error ''timeout'')),
       openError = None, statError = None,
       unlinkError = (if n = 7 then Some (Error ''EBUSY'') else None) \<rparr>"

definition example_downloader :: CraigslistScraper where
  "example_downloader = example_scraper\<lparr>download := example_download\<rparr>"

section \<open>Properties of the enrichment client\<close>

subsection \<open>The retry loop and the outward call\<close>

lemma performAnalysis_from_exhausted:
  "(\<forall>a < maxRetries. \<exists>e. attemptAnalysis svc listing a = Inl e)
     \<Longrightarrow> \<exists>e. performAnalysis_from svc listing attempt = Inl e"
proof (induction svc listing attempt rule: performAnalysis_from.induct)
  case (1 svc listing attempt)
  show ?case
  proof (cases "attempt < maxRetries")
    case True
    with "1.prems" obtain e where e: "attemptAnalysis svc listing attempt = Inl e" by blast
    from True e "1.IH" "1.prems" show ?thesis
      by (subst performAnalysis_from.simps) auto
  next
    case False
    then show ?thesis by (subst performAnalysis_from.simps) simp
  qed
qed

text \<open>When each of the three attempts throws, the retry loop throws.\<close>

lemma performAnalysis_exhausted:
  "(\<forall>a < maxRetries. \<exists>e. attemptAnalysis svc listing a = Inl e)
     \<Longrightarrow> \<exists>e. performAnalysis svc listing = Inl e"
  by (simp add: performAnalysis_def performAnalysis_from_exhausted)

text \<open>
  With status 500 at every attempt the loop rethrows the error of the last attempt; with
  status 429 at every attempt it runs out and throws its own error.
\<close>

lemma performAnalysis_down:
  "performAnalysis example_service_down example_listing = Inl (ApiError (Some 500))"
  by (simp add: performAnalysis_def performAnalysis_from.simps maxRetries_def attemptAnalysis_def
      andThen_def example_service_down_def)

lemma performAnalysis_limited:
  "performAnalysis example_service_limited example_listing =
     Inl (Error ''Failed to analyze antique after 3 attempts'')"
  by (simp add: performAnalysis_def performAnalysis_from.simps maxRetries_def attemptAnalysis_def
      andThen_def example_service_limited_def)

text \<open>What the retry loop returns is what one of its attempts returned.\<close>

lemma performAnalysis_from_Inr:
  "performAnalysis_from svc listing attempt = Inr analysis
    \<Longrightarrow> \<exists>k. attempt \<le> k \<and> k < maxRetries \<and> attemptAnalysis svc listing k = Inr analysis"
proof (induction svc listing attempt rule: performAnalysis_from.induct)
  case (1 svc listing attempt)
  show ?case
  proof (cases "attempt < maxRetries")
    case False
    with "1.prems" show ?thesis
      by (subst (asm) performAnalysis_from.simps) simp
  next
    case True
    show ?thesis
    proof (cases "attemptAnalysis svc listing attempt")
      case (Inr a)
      with True "1.prems" have "a = analysis"
        by (subst (asm) performAnalysis_from.simps) simp
      with Inr True show ?thesis by auto
    next
      case (Inl error)
      with True "1.prems"
      have next_attempt: "performAnalysis_from svc listing (attempt + 1) = Inr analysis"
        and retried: "status error = Some 429 \<or> attempt \<noteq> maxRetries - 1"
        by (subst (asm) performAnalysis_from.simps, simp split: if_splits)+
      from retried have "\<exists>k. attempt + 1 \<le> k \<and> k < maxRetries
          \<and> attemptAnalysis svc listing k = Inr analysis"
      proof
        assume limited: "status error = Some 429"
        from "1.IH"(1) [OF True Inl limited next_attempt] show ?thesis .
      next
        assume last: "attempt \<noteq> maxRetries - 1"
        show ?thesis
        proof (cases "status error = Some 429")
          case True
          from "1.IH"(1) [OF \<open>attempt < maxRetries\<close> Inl True next_attempt] show ?thesis .
        next
          case False
          from "1.IH"(2) [OF \<open>attempt < maxRetries\<close> Inl False last next_attempt]
          show ?thesis .
        qed
      qed
      then show ?thesis by (auto intro: Suc_leD)
    qed
  qed
qed

text \<open>
  Claim C1. Whenever the retry loop \<open>performAnalysis\<close> throws, whatever the listing and
  whatever the error, \<open>analyzeAntique\<close> returns the fallback analysis; in particular it
  does so when each of the attempts throws. The fallback has market value 0, assessment
  \<open>fair\<close>, confidence 0, authenticity score 0 and the three placeholder texts. Nothing
  is thrown to the caller: when \<open>analyzeAntique\<close> does not return the fallback, it returns
  the analysis that one of the attempts produced.
\<close>

theorem analyzeAntique_fallback:
  "(performAnalysis svc listing = Inl e \<longrightarrow> analyzeAntique svc listing = getDefaultAnalysis)
   \<and> ((\<forall>a < maxRetries. \<exists>e. attemptAnalysis svc listing a = Inl e)
        \<longrightarrow> analyzeAntique svc listing = getDefaultAnalysis)
   \<and> (analyzeAntique svc listing \<noteq> getDefaultAnalysis
        \<longrightarrow> (\<exists>k < maxRetries. attemptAnalysis svc listing k = Inr (analyzeAntique svc listing)))
   \<and> getDefaultAnalysis =
       \<lparr> marketValue = Fin 0, pricingAssessment = ''fair'', pricingConfidence = Fin 0,
         authenticityScore = Fin 0,
         authenticityTips = ''Analysis unavailable due to API error'',
         historicalContext = ''Analysis unavailable due to API error'',
         additionalNotes = ''Please try analyzing this item again later'' \<rparr>"
proof (intro conjI impI)
  assume "performAnalysis svc listing = Inl e"
  then show "analyzeAntique svc listing = getDefaultAnalysis"
    by (simp add: analyzeAntique_def queue_add_def)
next
  assume "\<forall>a < maxRetries. \<exists>e. attemptAnalysis svc listing a = Inl e"
  then obtain e where "performAnalysis svc listing = Inl e"
    using performAnalysis_exhausted by blast
  then show "analyzeAntique svc listing = getDefaultAnalysis"
    by (simp add: analyzeAntique_def queue_add_def)
next
  assume ne: "analyzeAntique svc listing \<noteq> getDefaultAnalysis"
  then obtain a where a: "performAnalysis svc listing = Inr a"
    by (cases "performAnalysis svc listing") (auto simp: analyzeAntique_def queue_add_def)
  then have "analyzeAntique svc listing = a"
    by (simp add: analyzeAntique_def queue_add_def)
  with a performAnalysis_from_Inr [of svc listing 0 a]
  show "\<exists>k < maxRetries. attemptAnalysis svc listing k = Inr (analyzeAntique svc listing)"
    by (auto simp: performAnalysis_def)
next
  show "getDefaultAnalysis =
       \<lparr> marketValue = Fin 0, pricingAssessment = ''fair'', pricingConfidence = Fin 0,
         authenticityScore = Fin 0,
         authenticityTips = ''Analysis unavailable due to API error'',
         historicalContext = ''Analysis unavailable due to API error'',
         additionalNotes = ''Please try analyzing this item again later'' \<rparr>"
    by (simp add: getDefaultAnalysis_def)
qed

theorem analyzeAntique_fallback_witness:
  "performAnalysis example_service_down example_listing = Inl (ApiError (Some 500))
   \<and> analyzeAntique example_service_down example_listing = getDefaultAnalysis
   \<and> marketValue (analyzeAntique example_service_down example_listing) = Fin 0
   \<and> pricingAssessment (analyzeAntique example_service_down example_listing) = ''fair''"
  using analyzeAntique_fallback [of example_service_down example_listing "ApiError (Some 500)"]
    performAnalysis_down
  by (simp add: getDefaultAnalysis_def)

subsection \<open>Numeric strings that carry a currency symbol or a separator\<close>












lemmas StringToNumber_eval =
  StringToNumber_def trim_def isStrWhiteSpaceChar_def StrDecimalLiteral_def
  StrUnsignedDecimalLiteral_def isDecimalDigit_def digitsValue_def digitValue_def
  ExponentPart_def SignedInteger_def scale10_def






subsection \<open>Confidence and score\<close>

lemma sequence_all_Inr:
  "list_all (\<lambda>r. \<exists>x. r = Inr x) rs \<Longrightarrow> \<exists>xs. sequence rs = Inr xs"
  by (induction rs) auto

lemma sequence_some_Inl:
  "list_all (\<lambda>r. (\<exists>x. r = Inr x) \<or> r = Inl e) rs
    \<Longrightarrow> \<not> list_all (\<lambda>r. \<exists>x. r = Inr x) rs
    \<Longrightarrow> sequence rs = Inl e"
  by (induction rs) (auto split: sum.splits)

text \<open>\<open>ToString\<close> completes on a coercible value and throws \<open>TypeError\<close> on any other.\<close>

lemma ToString_coercible:
  "(coercible v \<longrightarrow> (\<exists>s. ToString rt v = Inr s))
   \<and> (\<not> coercible v \<longrightarrow> ToString rt v = Inl TypeError)"
proof (induction rt v rule: ToString.induct)
  case (6 rt vs)
  let ?rs = "map (\<lambda>v. if v = JUndefined \<or> v = JNull then Inr [] else ToString rt v) vs"
  have all: "list_all (\<lambda>r. (\<exists>x. r = Inr x) \<or> r = Inl TypeError) ?rs"
    using 6 by (auto simp: list_all_iff)
  show ?case
  proof (cases "list_all coercible vs")
    case True
    then have "list_all (\<lambda>r. \<exists>x. r = Inr x) ?rs"
      using 6 by (auto simp: list_all_iff)
    from sequence_all_Inr [OF this] True show ?thesis by auto
  next
    case False
    then obtain x where x: "x \<in> set vs" "\<not> coercible x"
      by (auto simp: list_all_iff)
    then have nn: "x \<noteq> JUndefined \<and> x \<noteq> JNull" by auto
    with 6 x have "ToString rt x = Inl TypeError" by blast
    with nn x(1) have "Inl TypeError \<in> set ?rs" by force
    then have "\<not> list_all (\<lambda>r. \<exists>x. r = Inr x) ?rs"
      by (auto simp: list_all_iff)
    from sequence_some_Inl [OF all this] False show ?thesis by simp
  qed
qed auto

lemma Number_coercible:
  "(coercible v \<longrightarrow> (\<exists>n. Number rt v = Inr n))
   \<and> (\<not> coercible v \<longrightarrow> Number rt v = Inl TypeError)"
  using ToString_coercible [of v rt] by (cases v) auto

lemma clamp_inUnitInterval:
  "n \<noteq> NaN \<Longrightarrow> inUnitInterval (Math_max (Fin 0) (Math_min (Fin 1) n))"
  by (cases n) (auto simp: inUnitInterval_def)

lemma inUnitInterval_Fin0: "inUnitInterval (Fin 0)"
  by (simp add: inUnitInterval_def)

lemma validateConfidence_Inr:
  "validateConfidence rt v = Inr n \<Longrightarrow> inUnitInterval n"
  by (auto simp: validateConfidence_def isNaN_def clamp_inUnitInterval inUnitInterval_Fin0
      split: sum.splits if_splits)

lemma parseFields_confidence:
  "parseFields rt c = Inr a
    \<Longrightarrow> inUnitInterval (pricingConfidence a) \<and> inUnitInterval (authenticityScore a)"
  by (auto simp: parseFields_def andThen_def split: sum.splits dest: validateConfidence_Inr)

lemma getDefaultAnalysis_confidence:
  "inUnitInterval (pricingConfidence getDefaultAnalysis)
   \<and> inUnitInterval (authenticityScore getDefaultAnalysis)"
  by (simp add: getDefaultAnalysis_def inUnitInterval_def)

lemma parseResponse_confidence:
  "inUnitInterval (pricingConfidence (parseResponse rt c))
   \<and> inUnitInterval (authenticityScore (parseResponse rt c))"
  using getDefaultAnalysis_confidence
  by (auto simp: parseResponse_def split: option.splits sum.splits dest: parseFields_confidence)

text \<open>
  Claim C3, as stated: for every input value, \<open>validateConfidence\<close> gives a number in
  [0,1]. On an object that has an own property \<open>toString\<close>, which \<open>JSON.parse\<close> can
  produce, \<open>Number(value)\<close> throws \<open>TypeError\<close> and so does \<open>validateConfidence\<close>: there
  is no validated result.
\<close>

theorem validateConfidence_counterexample:
  "validateConfidence example_runtime (JObj [(''toString'', JNum (Fin 1))]) = Inl TypeError"
  by (simp add: validateConfidence_def)

text \<open>
  Claim C3, amended. For every input value on which the conversion to a number completes
  (a missing value, \<open>null\<close>, a boolean, a number, a string, an object without an own
  property \<open>toString\<close>, and an array whose elements, at any depth of arrays, are such
  values), \<open>validateConfidence\<close> returns a number in the closed interval [0,1]. On every
  other input it throws \<open>TypeError\<close>. \<open>parseResponse\<close> catches that error, and the
  confidence and the score of the analysis it returns are in [0,1] for every response.
\<close>

theorem validateConfidence_range:
  "(coercible v \<longrightarrow> (\<exists>n. validateConfidence rt v = Inr n \<and> inUnitInterval n))
   \<and> (\<not> coercible v \<longrightarrow> validateConfidence rt v = Inl TypeError)
   \<and> inUnitInterval (pricingConfidence (parseResponse rt c))
   \<and> inUnitInterval (authenticityScore (parseResponse rt c))"
proof -
  have a: "coercible v \<longrightarrow> (\<exists>n. validateConfidence rt v = Inr n \<and> inUnitInterval n)"
  proof
    assume "coercible v"
    then obtain m where "Number rt v = Inr m"
      using Number_coercible [of v rt] by auto
    then obtain n where n: "validateConfidence rt v = Inr n"
      by (simp add: validateConfidence_def)
    with validateConfidence_Inr
    show "\<exists>n. validateConfidence rt v = Inr n \<and> inUnitInterval n" by blast
  qed
  have b: "\<not> coercible v \<longrightarrow> validateConfidence rt v = Inl TypeError"
    using Number_coercible [of v rt] by (simp add: validateConfidence_def)
  from a b parseResponse_confidence show ?thesis by blast
qed

lemma validateConfidence_too_large:
  "validateConfidence example_runtime (JStr ''1.7'') = Inr (Fin 1)"
  by (simp add: validateConfidence_def isNaN_def StringToNumber_eval)

theorem validateConfidence_range_witness:
  "coercible (JStr ''1.7'')
   \<and> validateConfidence example_runtime (JStr ''1.7'') = Inr (Fin 1)
   \<and> inUnitInterval (Fin 1)
   \<and> inUnitInterval (pricingConfidence (parseResponse example_runtime (Some ''null'')))"
  using validateConfidence_range [of "JStr ''1.7''" example_runtime "Some ''null''"]
    validateConfidence_too_large
  by simp

subsection \<open>The pricing assessment\<close>

lemma String_coercible:
  "(coercible v \<longrightarrow> (\<exists>s. String rt v = Inr s))
   \<and> (\<not> coercible v \<longrightarrow> String rt v = Inl TypeError)"
  using ToString_coercible [of v rt] by (simp add: String_def)

lemma validatePricingAssessment_Inr:
  "validatePricingAssessment rt v = Inr r \<Longrightarrow> r \<in> {''underpriced'', ''overpriced'', ''fair''}"
  by (auto simp: validatePricingAssessment_def validValues_def Let_def
      split: sum.splits if_splits)

lemma parseResponse_assessment:
  "pricingAssessment (parseResponse rt c) \<in> {''underpriced'', ''overpriced'', ''fair''}"
proof -
  have "parseFields rt x = Inr a
      \<Longrightarrow> pricingAssessment a \<in> {''underpriced'', ''overpriced'', ''fair''}" for x a
    by (auto simp: parseFields_def andThen_def split: sum.splits
        dest!: validatePricingAssessment_Inr)
  then show ?thesis
    by (auto simp: parseResponse_def getDefaultAnalysis_def split: option.splits sum.splits)
qed

text \<open>
  Claim C4, as stated: every input that is none of the three words, in any case, gives
  \<open>fair\<close>. An object with an own property \<open>toString\<close>, which \<open>JSON.parse\<close> can
  produce, is none of the three words, yet \<open>String(value)\<close> throws \<open>TypeError\<close> on it
  and so does \<open>validatePricingAssessment\<close>: nothing is output.
\<close>

theorem validatePricingAssessment_counterexample:
  "validatePricingAssessment example_runtime (JObj [(''toString'', JStr ''fair'')])
     = Inl TypeError"
  by (simp add: validatePricingAssessment_def String_def)

text \<open>
  Claim C4, amended. Every input whose conversion to a string completes (every value that
  is not an object with an own property \<open>toString\<close> nor an array holding, at any depth of
  arrays, such an object) has a string form \<open>s\<close>, and \<open>validatePricingAssessment\<close>
  returns \<open>fair\<close> when the lower-cased \<open>s\<close> is none of \<open>underpriced\<close>, \<open>overpriced\<close>,
  \<open>fair\<close>, and the lower-cased \<open>s\<close> when it is one of them; for a string input, \<open>s\<close> is
  the input. On every other input it throws \<open>TypeError\<close>. \<open>parseResponse\<close> catches that
  error, and the assessment of the analysis it returns is one of the three words for every
  response.
\<close>

theorem validatePricingAssessment_spec:
  "(coercible v \<longrightarrow>
      (\<exists>s. String rt v = Inr s
         \<and> (toLowerCase s \<notin> {''underpriced'', ''overpriced'', ''fair''}
              \<longrightarrow> validatePricingAssessment rt v = Inr ''fair'')
         \<and> (toLowerCase s \<in> {''underpriced'', ''overpriced'', ''fair''}
              \<longrightarrow> validatePricingAssessment rt v = Inr (toLowerCase s))))
   \<and> (\<not> coercible v \<longrightarrow> validatePricingAssessment rt v = Inl TypeError)
   \<and> (toLowerCase s \<notin> {''underpriced'', ''overpriced'', ''fair''}
        \<longrightarrow> validatePricingAssessment rt (JStr s) = Inr ''fair'')
   \<and> (toLowerCase s \<in> {''underpriced'', ''overpriced'', ''fair''}
        \<longrightarrow> validatePricingAssessment rt (JStr s) = Inr (toLowerCase s))
   \<and> pricingAssessment (parseResponse rt c) \<in> {''underpriced'', ''overpriced'', ''fair''}"
proof (intro conjI)
  show "coercible v \<longrightarrow>
      (\<exists>s. String rt v = Inr s
         \<and> (toLowerCase s \<notin> {''underpriced'', ''overpriced'', ''fair''}
              \<longrightarrow> validatePricingAssessment rt v = Inr ''fair'')
         \<and> (toLowerCase s \<in> {''underpriced'', ''overpriced'', ''fair''}
              \<longrightarrow> validatePricingAssessment rt v = Inr (toLowerCase s)))"
  proof
    assume "coercible v"
    then obtain s where s: "String rt v = Inr s"
      using String_coercible [of v rt] by auto
    then show "\<exists>s. String rt v = Inr s
         \<and> (toLowerCase s \<notin> {''underpriced'', ''overpriced'', ''fair''}
              \<longrightarrow> validatePricingAssessment rt v = Inr ''fair'')
         \<and> (toLowerCase s \<in> {''underpriced'', ''overpriced'', ''fair''}
              \<longrightarrow> validatePricingAssessment rt v = Inr (toLowerCase s))"
      by (auto simp: validatePricingAssessment_def validValues_def Let_def)
  qed
  show "\<not> coercible v \<longrightarrow> validatePricingAssessment rt v = Inl TypeError"
    using String_coercible [of v rt] by (simp add: validatePricingAssessment_def)
  show "toLowerCase s \<notin> {''underpriced'', ''overpriced'', ''fair''}
        \<longrightarrow> validatePricingAssessment rt (JStr s) = Inr ''fair''"
    by (auto simp: validatePricingAssessment_def validValues_def Let_def String_def)
  show "toLowerCase s \<in> {''underpriced'', ''overpriced'', ''fair''}
        \<longrightarrow> validatePricingAssessment rt (JStr s) = Inr (toLowerCase s)"
    by (auto simp: validatePricingAssessment_def validValues_def Let_def String_def)
  show "pricingAssessment (parseResponse rt c) \<in> {''underpriced'', ''overpriced'', ''fair''}"
    by (rule parseResponse_assessment)
qed

lemma toLowerCase_UnderPriced: "toLowerCase ''UnderPriced'' = ''underpriced''"
  by (simp add: toLowerCase_def toLowerChar_def)

lemma toLowerCase_Cheap: "toLowerCase ''Cheap'' = ''cheap''"
  by (simp add: toLowerCase_def toLowerChar_def)

theorem validatePricingAssessment_spec_witness:
  "coercible (JStr ''UnderPriced'')
   \<and> toLowerCase ''UnderPriced'' = ''underpriced''
   \<and> validatePricingAssessment example_runtime (JStr ''UnderPriced'') = Inr ''underpriced''
   \<and> toLowerCase ''Cheap'' = ''cheap''
   \<and> validatePricingAssessment example_runtime (JStr ''Cheap'') = Inr ''fair''"
  using validatePricingAssessment_spec [where rt = example_runtime and s = "''UnderPriced''"
      and v = "JStr ''UnderPriced''"]
    validatePricingAssessment_spec [where rt = example_runtime and s = "''Cheap''"
      and v = "JStr ''Cheap''"]
  by (simp add: toLowerCase_UnderPriced toLowerCase_Cheap)

section \<open>Properties of the scraper\<close>

subsection \<open>The set of listing URLs\<close>




lemma addUrl_gotoCalls: "gotoCalls (addUrl st u) = gotoCalls st"
  by (simp add: addUrl_def)


lemma foldl_addUrl_gotoCalls: "gotoCalls (foldl addUrl st us) = gotoCalls st"
  by (induction us arbitrary: st) (simp_all add: addUrl_gotoCalls)


lemma searchTry_gotoCalls:
  "searchTry cfg pg st = (x, st', k) \<Longrightarrow> gotoCalls st' = gotoCalls st"
  by (auto simp: searchTry_def Let_def foldl_addUrl_gotoCalls
      split: option.splits sum.splits if_splits)






lemmas collect_eval =
  collectListingUrls_def collectFrom.simps searchIteration_def searchTry_def Let_def
  addUrl_def Set_add_def example_config_def resultsPage_def timeoutPage_def crashedPage_def

lemma example_pages_collect:
  "collectListingUrls example_config example_pages =
     (None, \<lparr>listingUrls = [''u1'', ''u2''], addCalls = [''u1'', ''u2'', ''u2''],
             gotoCalls = [0, 1]\<rparr>)"
  by (simp add: collect_eval example_pages_def)












subsection \<open>Pagination\<close>

lemma searchIteration_gotoCalls:
  "searchIteration cfg pg n st = (x, st')
    \<Longrightarrow> gotoCalls st' = gotoCalls st @ [n] \<or> (gotoCalls st' = gotoCalls st \<and> (\<exists>e. x = Inl e))"
  by (auto simp: searchIteration_def split: option.splits sum.splits prod.splits
      dest!: searchTry_gotoCalls)

lemma searchIteration_endsPagination:
  "endsPagination cfg pg \<Longrightarrow> searchIteration cfg pg n st = (x, st') \<Longrightarrow> x = Inr Break"
  by (auto simp: endsPagination_def searchIteration_def searchTry_def Let_def
      split: option.splits sum.splits prod.splits if_splits)

text \<open>
  The pages navigated by the loop started at page \<open>n\<close> are \<open>n, ..., k - 1\<close> for some \<open>k\<close>
  up to the maximum, and a short page among them is the last.
\<close>

lemma collectFrom_gotoCalls:
  "collectFrom cfg pages n st = (r, st')
    \<Longrightarrow> \<exists>k. n \<le> k \<and> k \<le> max n (maxPages cfg) \<and> gotoCalls st' = gotoCalls st @ [n..<k]
          \<and> (\<forall>p. n \<le> p \<and> p < k \<and> endsPagination cfg (pages p) \<longrightarrow> k = Suc p \<and> r = None)"
proof (induction cfg pages n st rule: collectFrom.induct)
  case (1 cfg pages pageNum st)
  show ?case
  proof (cases "pageNum < maxPages cfg")
    case False
    with "1.prems" have "st' = st" by (simp add: collectFrom.simps)
    then show ?thesis by (intro exI [of _ pageNum]) auto
  next
    case True
    obtain x st1 where it: "searchIteration cfg (pages pageNum) pageNum st = (x, st1)"
      by (cases "searchIteration cfg (pages pageNum) pageNum st")
    note g = searchIteration_gotoCalls [OF it]
    note b = searchIteration_endsPagination [OF _ it]
    show ?thesis
    proof (cases x)
      case (Inl e)
      with True it "1.prems" have eq: "st' = st1" "r = Some e"
        by (simp_all add: collectFrom.simps)
      from b Inl have ne: "\<not> endsPagination cfg (pages pageNum)" by auto
      from g show ?thesis
      proof
        assume "gotoCalls st1 = gotoCalls st @ [pageNum]"
        with eq ne True show ?thesis
          by (intro exI [of _ "Suc pageNum"]) (auto simp: less_Suc_eq)
      next
        assume "gotoCalls st1 = gotoCalls st \<and> (\<exists>e. x = Inl e)"
        with eq show ?thesis by (intro exI [of _ pageNum]) auto
      qed
    next
      case (Inr ex)
      with g have g1: "gotoCalls st1 = gotoCalls st @ [pageNum]" by auto
      show ?thesis
      proof (cases ex)
        case Break
        with Inr True it "1.prems" have eq: "st' = st1" "r = None"
          by (simp_all add: collectFrom.simps)
        with g1 True show ?thesis
          by (intro exI [of _ "Suc pageNum"]) (auto simp: less_Suc_eq)
      next
        case Continue
        with Inr b have ne: "\<not> endsPagination cfg (pages pageNum)" by auto
        from Continue Inr True it "1.prems"
        have "collectFrom cfg pages (pageNum + 1) st1 = (r, st')"
          by (simp add: collectFrom.simps)
        from "1.IH" [OF True it [symmetric] Inr Continue this]
        obtain k where k: "pageNum + 1 \<le> k" "k \<le> max (pageNum + 1) (maxPages cfg)"
          "gotoCalls st' = gotoCalls st1 @ [pageNum + 1..<k]"
          "\<forall>p. pageNum + 1 \<le> p \<and> p < k \<and> endsPagination cfg (pages p)
              \<longrightarrow> k = Suc p \<and> r = None"
          by blast
        have "[pageNum..<k] = pageNum # [pageNum + 1..<k]"
          using k(1) by (simp add: upt_conv_Cons)
        with k(3) g1 have g2: "gotoCalls st' = gotoCalls st @ [pageNum..<k]" by simp
        have "\<forall>p. pageNum \<le> p \<and> p < k \<and> endsPagination cfg (pages p)
            \<longrightarrow> k = Suc p \<and> r = None"
        proof (intro allI impI)
          fix p
          assume p: "pageNum \<le> p \<and> p < k \<and> endsPagination cfg (pages p)"
          with ne have "p \<noteq> pageNum" by auto
          with p have "pageNum + 1 \<le> p" by simp
          with p k(4) show "k = Suc p \<and> r = None" by blast
        qed
        with g2 k(1,2) True show ?thesis
          by (intro exI [of _ k]) auto
      qed
    qed
  qed
qed

text \<open>
  Claim C8, as stated: every result page whose extracted listing count is below the page
  size ends the pagination. The check comes after \<open>await page.close()\<close> inside the
  \<open>try\<close> block: when that call throws on such a page and the \<open>page.close()\<close> of the
  \<open>catch\<close> block returns, the error is absorbed and the next page is navigated to.
\<close>

theorem short_page_counterexample:
  "evaluateListingUrls (example_pages_close 0) = Inr [''u1'']
   \<and> length [''u1''] < resultsPerPage example_config
   \<and> collectListingUrls example_config example_pages_close =
       (None, \<lparr>listingUrls = [''u1'', ''u2''], addCalls = [''u1'', ''u2''], gotoCalls = [0, 1]\<rparr>)"
  by (simp add: collect_eval example_pages_close_def)

text \<open>
  Claim C8, amended. The URL collection navigates to at most the configured maximum
  number of result pages. A result page that it navigates to, that yields fewer URLs than
  the configured page size and that is processed without error, its \<open>page.close()\<close>
  included, is the last one: the pages navigated are the pages 0 to that page, and the
  collection returns without throwing.
\<close>

theorem short_page_ends_pagination:
  "collectListingUrls cfg pages = (r, st)
    \<Longrightarrow> length (gotoCalls st) \<le> maxPages cfg
        \<and> (\<forall>p \<in> set (gotoCalls st). endsPagination cfg (pages p)
              \<longrightarrow> r = None \<and> gotoCalls st = [0..<Suc p])"
proof -
  assume "collectListingUrls cfg pages = (r, st)"
  then have "collectFrom cfg pages 0 \<lparr>listingUrls = [], addCalls = [], gotoCalls = []\<rparr> = (r, st)"
    by (simp add: collectListingUrls_def)
  from collectFrom_gotoCalls [OF this]
  obtain k where k: "k \<le> maxPages cfg" "gotoCalls st = [0..<k]"
    "\<forall>p. p < k \<and> endsPagination cfg (pages p) \<longrightarrow> k = Suc p \<and> r = None"
    by auto
  then show ?thesis by auto
qed

theorem short_page_ends_pagination_witness:
  "collectListingUrls example_config example_pages =
     (None, \<lparr>listingUrls = [''u1'', ''u2''], addCalls = [''u1'', ''u2'', ''u2''],
             gotoCalls = [0, 1]\<rparr>)
   \<and> endsPagination example_config (example_pages 1)
   \<and> [0, 1] = [0..<Suc 1]
   \<and> length [0, 1 :: nat] \<le> maxPages example_config"
  using short_page_ends_pagination [OF example_pages_collect] example_pages_collect
  by (simp add: endsPagination_def example_pages_def resultsPage_def example_config_def upt_rec)

subsection \<open>Errors on a result page\<close>







subsection \<open>The posting date of a listing\<close>

text \<open>
  A date text that is present and that the browser cannot parse makes the extraction
  throw: \<open>new Date(text)\<close> is an invalid date, and \<open>toISOString\<close> throws on it.
\<close>

lemma extractListing_invalid_date:
  "getText (dom pg) ''.date.timeago'' \<noteq> []
    \<Longrightarrow> Date_parse pg (getText (dom pg) ''.date.timeago'') = None
    \<Longrightarrow> extractListing pg = Inl RangeError"
  by (simp add: extractListing_def Let_def toISOString_def andThen_def)

text \<open>Only a date text that is absent or blank is replaced by the time of the fetch.\<close>

lemma extractListing_no_date:
  "getText (dom pg) ''.date.timeago'' = []
    \<Longrightarrow> \<exists>raw. extractListing pg = Inr raw \<and> raw_postedDate raw = Date_now pg"
  by (simp add: extractListing_def Let_def toISOString_def andThen_def)

text \<open>
  On a page that loads and is not removed, a date text that is present and cannot be
  parsed makes \<open>scrapeListingPage\<close> return \<open>null\<close>: the error of the extraction is caught,
  the page is closed, and there is no record.
\<close>

lemma scrapeListingPage_invalid_date:
  assumes "browser scraper = Some b" "detailPage b u = pg"
    and "detail_newPage pg = None" "detail_goto pg = None" "evaluateIsDeleted pg = Inr False"
    and "detail_evaluate pg = None"
    and "getText (dom pg) ''.date.timeago'' \<noteq> []"
    and "Date_parse pg (getText (dom pg) ''.date.timeago'') = None"
    and "detail_close pg 0 = None"
  shows "scrapeListingPage scraper n u = Inr None"
  using assms extractListing_invalid_date [of pg]
  by (simp add: scrapeListingPage_def detailTry_def Let_def)

lemma scrapeListingPage_no_date:
  assumes "browser scraper = Some b" "detailPage b u = pg"
    and "detail_newPage pg = None" "detail_goto pg = None" "evaluateIsDeleted pg = Inr False"
    and "detail_evaluate pg = None"
    and "getText (dom pg) ''.date.timeago'' = []"
    and "detail_close pg 0 = None"
  shows "\<exists>listing. scrapeListingPage scraper n u = Inr (Some listing)
      \<and> postedDate listing = Some (Date_now pg)"
  using assms extractListing_no_date [of pg]
  by (auto simp: scrapeListingPage_def detailTry_def Let_def)

lemma trim_nonempty_text: "trim ''about a week ago'' = ''about a week ago''"
  by (simp add: trim_def isStrWhiteSpaceChar_def)

lemma example_detail_browser:
  "browser example_detail_scraper =
     Some \<lparr> searchPage = example_pages,
       detailPage = (\<lambda>u. if u = ''https://cl/dated'' then listingPage (Some ''2024-01-15 10:30'')
                          else if u = ''https://cl/undated'' then listingPage None
                          else listingPage (Some ''about a week ago'')) \<rparr>"
  by (simp add: example_detail_scraper_def)

text \<open>The listing without a date text is kept, with the time of the fetch as its date.\<close>

lemma undated_listing_kept:
  "\<exists>listing. scrapeListingPage example_detail_scraper 0 ''https://cl/undated'' = Inr (Some listing)
      \<and> postedDate listing = Some 1700000000000"
proof -
  let ?pg = "listingPage None"
  have t: "getText (dom ?pg) ''.date.timeago'' = []"
    by (simp add: listingPage_def getText_def)
  have "\<exists>listing. scrapeListingPage example_detail_scraper 0 ''https://cl/undated''
        = Inr (Some listing) \<and> postedDate listing = Some (Date_now ?pg)"
    by (rule scrapeListingPage_no_date [OF example_detail_browser, where pg = ?pg])
      (simp_all add: t, simp_all add: listingPage_def)
  then show ?thesis by (simp add: listingPage_def)
qed

text \<open>
  Claim C6. The claim says that a listing whose date text is present but unparseable is
  still yielded, with the fetch time as its date. The code yields no record for it: on the
  example page whose date text is \<open>about a week ago\<close>, which the parser does not
  understand, \<open>scrapeListingPage\<close> returns \<open>null\<close>.
\<close>

theorem unparseable_date_drops_listing:
  "scrapeListingPage example_detail_scraper 0 ''https://cl/vague'' = Inr None"
proof -
  let ?pg = "listingPage (Some ''about a week ago'')"
  have t: "getText (dom ?pg) ''.date.timeago'' = ''about a week ago''"
    by (simp add: listingPage_def getText_def trim_nonempty_text)
  show ?thesis
    by (rule scrapeListingPage_invalid_date [OF example_detail_browser, where pg = ?pg])
      (simp_all add: t, simp_all add: listingPage_def)
qed

subsection \<open>Downloads\<close>

lemma downloadTry_Inr:
  "downloadTry scraper n u lid name path files = (Inr img, files')
    \<Longrightarrow> \<exists>response. axios (download scraper n u) = Inr response
          \<and> streamError response = None
          \<and> localPath img = path
          \<and> files' = files(path \<mapsto> body response)
          \<and> size img = (if length (body response) \<noteq> 0
                         then Fin (real (length (body response)))
                         else parseInt10 (contentLengthHeader response))"
  by (auto simp: downloadTry_def Let_def pipelineAsync_def fs_stat_size_def contentLengthHeader_def
      split: sum.splits option.splits prod.splits if_splits)

lemma downloadTry_Inl_files:
  "downloadTry scraper n u lid name path files = (Inl e, files')
    \<Longrightarrow> files' = files \<or> (\<exists>bytes. files' = files(path \<mapsto> bytes))"
  by (auto simp: downloadTry_def Let_def pipelineAsync_def fs_stat_size_def
      split: sum.splits option.splits prod.splits if_splits)

text \<open>
  A download that does not give an image returns \<open>null\<close>, leaves no file at its path
  unless the removal fails, and touches no other path.
\<close>

lemma downloadImage_failed_cleanup:
  assumes "downloadImage scraper n u lid files = (r, files')"
    and "imageLocalPath scraper n u lid = Inr path"
    and "\<forall>img. r \<noteq> Inr (Some img)"
  shows "r = Inr None"
    and "unlinkError (download scraper n u) = None \<longrightarrow> files' path = None"
    and "\<forall>q. q \<noteq> path \<longrightarrow> files' q = files q"
  using assms
  by (auto simp: downloadImage_def imageLocalPath_def andThen_def Let_def fs_existsSync_def
      fs_unlink_def split: sum.splits prod.splits if_splits option.splits
      dest!: downloadTry_Inl_files)

lemma downloadImage_result_independent:
  "fst (downloadImage scraper n u lid files) = fst (downloadImage scraper n u lid files2)"
  by (auto simp: downloadImage_def Let_def downloadTry_def pipelineAsync_def fs_stat_size_def
      split: sum.splits prod.splits option.splits if_splits)

lemma downloadAll_results:
  "fst (downloadAll scraper n urls lid files)
     = map (\<lambda>(i, u). downloadOutcome scraper i u lid) (enumerate n urls)"
proof (induction urls arbitrary: n files)
  case Nil
  show ?case by simp
next
  case (Cons u us)
  obtain r files1 where d: "downloadImage scraper n u lid files = (r, files1)"
    by (cases "downloadImage scraper n u lid files")
  then have r: "r = downloadOutcome scraper n u lid"
    using downloadImage_result_independent [of scraper n u lid files Map.empty]
    by (simp add: downloadOutcome_def)
  obtain rs files2 where a: "downloadAll scraper (n + 1) us lid files1 = (rs, files2)"
    by (cases "downloadAll scraper (n + 1) us lid files1")
  with Cons.IH [of "n + 1" files1]
  have "rs = map (\<lambda>(i, u). downloadOutcome scraper i u lid) (enumerate (n + 1) us)"
    by simp
  with d a r show ?case by (simp add: queue_add_def)
qed

text \<open>
  \<open>downloadImages\<close> returns the images of the downloads that succeeded, in the order of
  the URLs, and nothing for the others.
\<close>

lemma downloadImages_results:
  "fst (downloadImages scraper urls lid files)
     = fulfilledValues (map (\<lambda>(i, u). downloadOutcome scraper i u lid) (enumerate 0 urls))"
  using downloadAll_results [of scraper 0 urls lid files]
  by (cases "downloadAll scraper 0 urls lid files") (simp add: downloadImages_def)

lemmas download_eval =
  downloadImage_def downloadTry_def imageFilename_def imageLocalPath_def getFileExtension_def
  andThen_def Let_def pipelineAsync_def fs_stat_size_def fs_existsSync_def fs_unlink_def
  example_downloader_def example_scraper_def example_node_def example_download_def
  imageResponse_def downloadOutcome_def

lemma example_cut:
  "downloadImage example_downloader 1 ''https://img/cut'' ''L'' Map.empty = (Inr None, Map.empty)"
  by (simp add: download_eval)

lemma example_cut_path:
  "imageLocalPath example_downloader 1 ''https://img/cut'' ''L'' = Inr ''/data/images/L_a1.jpg''"
  by (simp add: download_eval)

lemma example_outcomes:
  "downloadOutcome example_downloader (Suc 0) ''https://img/cut'' ''L'' = Inr None"
  "downloadOutcome example_downloader 0 ''https://img/ok'' ''L'' =
     Inr (Some \<lparr>image_id = ''a0'', listingId = ''L'', filename = ''L_a0.jpg'',
                 originalUrl = ''https://img/ok'', localPath = ''/data/images/L_a0.jpg'',
                 contentType = ''image/png'', size = Fin 3\<rparr>)"
  "downloadOutcome example_downloader (Suc (Suc 0)) ''https://img/ok'' ''L'' =
     Inr (Some \<lparr>image_id = ''a2'', listingId = ''L'', filename = ''L_a2.jpg'',
                 originalUrl = ''https://img/ok'', localPath = ''/data/images/L_a2.jpg'',
                 contentType = ''image/png'', size = Fin 3\<rparr>)"
  by (simp_all add: download_eval)

lemma example_ok:
  "downloadImage example_downloader 0 ''https://img/ok'' ''L'' Map.empty
     = (Inr (Some \<lparr>image_id = ''a0'', listingId = ''L'', filename = ''L_a0.jpg'',
                    originalUrl = ''https://img/ok'', localPath = ''/data/images/L_a0.jpg'',
                    contentType = ''image/png'', size = Fin 3\<rparr>),
        [''/data/images/L_a0.jpg'' \<mapsto> [1, 2, 3]])"
  by (simp add: download_eval)

text \<open>When the removal fails, what the stream wrote stays at the path.\<close>

lemma downloadImage_unlink_fails:
  assumes "downloadImage scraper n u lid files = (Inr None, files')"
    and "imageLocalPath scraper n u lid = Inr path"
    and "unlinkError (download scraper n u) = Some e"
    and "axios (download scraper n u) = Inr response"
    and "openError (download scraper n u) = None"
  shows "files' path = Some (body response)"
  using assms
  by (auto simp: downloadImage_def imageLocalPath_def andThen_def Let_def fs_existsSync_def
      fs_unlink_def downloadTry_def pipelineAsync_def fs_stat_size_def
      split: sum.splits prod.splits if_splits option.splits)

text \<open>
  Claim C2, as stated: after every failed download there is no file at the computed
  local path. When the body is cut off after two bytes and the removal of the partial
  file fails, \<open>downloadImage\<close> returns \<open>null\<close> and the two bytes stay at the local path.
\<close>

theorem partial_file_counterexample:
  "fst (downloadImage example_downloader 7 ''https://img/cut'' ''L'' Map.empty) = Inr None
   \<and> imageLocalPath example_downloader 7 ''https://img/cut'' ''L'' = Inr ''/data/images/L_a2.jpg''
   \<and> snd (downloadImage example_downloader 7 ''https://img/cut'' ''L'' Map.empty)
        ''/data/images/L_a2.jpg'' = Some [1, 2]"
  by (simp add: download_eval)

text \<open>
  What a failing download does, stated from its cause: the \<open>try\<close> block throws, having
  written nothing or some bytes at the path, and \<open>downloadImage\<close> returns \<open>null\<close>.
\<close>

lemma downloadTry_fails:
  "downloadFails (download scraper n u)
    \<Longrightarrow> \<exists>e files'. downloadTry scraper n u lid name path files = (Inl e, files')
          \<and> (files' = files \<or> (\<exists>bytes. files' = files(path \<mapsto> bytes)))"
  by (auto simp: downloadFails_def downloadTry_def Let_def pipelineAsync_def fs_stat_size_def
      split: sum.splits option.splits)

lemma downloadImage_fails:
  assumes "imageLocalPath scraper n u lid = Inr path"
    and "downloadFails (download scraper n u)"
  shows "fst (downloadImage scraper n u lid files) = Inr None"
    and "unlinkError (download scraper n u) = None
      \<Longrightarrow> downloadImage scraper n u lid files = (Inr None, files(path := None))"
proof -
  from assms(1) obtain name where name: "imageFilename scraper n u lid = Inr name"
    and path: "path = path_join (nodeRuntime scraper) (imageDir scraper) name"
    by (auto simp: imageLocalPath_def andThen_def split: sum.splits)
  from downloadTry_fails [OF assms(2)] obtain e files' where
    t: "downloadTry scraper n u lid name path files = (Inl e, files')"
    and f: "files' = files \<or> (\<exists>bytes. files' = files(path \<mapsto> bytes))"
    by blast
  from name path t show "fst (downloadImage scraper n u lid files) = Inr None"
    by (simp add: downloadImage_def Let_def)
  assume ul: "unlinkError (download scraper n u) = None"
  from f show "downloadImage scraper n u lid files = (Inr None, files(path := None))"
  proof
    assume "files' = files"
    with name path t ul show ?thesis
      by (cases "files path")
        (auto simp: downloadImage_def Let_def fs_existsSync_def fs_unlink_def)
  next
    assume "\<exists>bytes. files' = files(path \<mapsto> bytes)"
    with name path t ul show ?thesis
      by (auto simp: downloadImage_def Let_def fs_existsSync_def fs_unlink_def)
  qed
qed

lemma downloadImage_fails_unlink_fails:
  assumes "imageLocalPath scraper n u lid = Inr path"
    and "axios (download scraper n u) = Inr response"
    and "openError (download scraper n u) = None"
    and "streamError response \<noteq> None \<or> statError (download scraper n u) \<noteq> None"
    and "unlinkError (download scraper n u) = Some e"
  shows "downloadImage scraper n u lid files = (Inr None, files(path \<mapsto> body response))"
  using assms
  by (auto simp: downloadImage_def imageLocalPath_def andThen_def Let_def fs_existsSync_def
      fs_unlink_def downloadTry_def pipelineAsync_def fs_stat_size_def
      split: sum.splits prod.splits option.splits)

lemma downloadOutcome_cases:
  "(downloadSucceeds scraper n u
      \<longrightarrow> (\<exists>img. downloadOutcome scraper n u lid = Inr (Some img) \<and> originalUrl img = u))
   \<and> (\<not> downloadSucceeds scraper n u
      \<longrightarrow> (\<forall>img. downloadOutcome scraper n u lid \<noteq> Inr (Some img)))"
  by (auto simp: downloadSucceeds_def downloadFails_def downloadOutcome_def downloadImage_def
      imageFilename_def getFileExtension_def andThen_def Let_def downloadTry_def
      pipelineAsync_def fs_stat_size_def isl_def
      split: sum.splits prod.splits option.splits if_splits)

lemma fulfilledValues_drop:
  "\<forall>x. r \<noteq> Inr (Some x) \<Longrightarrow> fulfilledValues (r # rs) = fulfilledValues rs"
proof (cases r)
  case (Inl e)
  then show ?thesis by simp
next
  case (Inr opt)
  assume "\<forall>x. r \<noteq> Inr (Some x)"
  with Inr have "opt = None" by (cases opt) auto
  with Inr show ?thesis by simp
qed

lemma fulfilledValues_urls:
  "map originalUrl (fulfilledValues (map (\<lambda>(i, u). downloadOutcome scraper i u lid) ius))
     = map snd (filter (\<lambda>(i, u). downloadSucceeds scraper i u) ius)"
proof (induction ius)
  case Nil
  show ?case by simp
next
  case (Cons a ius)
  obtain i u where a: "a = (i, u)" by (cases a)
  show ?case
  proof (cases "downloadSucceeds scraper i u")
    case True
    with downloadOutcome_cases [of scraper i u lid] obtain img where
      "downloadOutcome scraper i u lid = Inr (Some img)" "originalUrl img = u" by auto
    with True a Cons.IH show ?thesis by simp
  next
    case False
    with downloadOutcome_cases [of scraper i u lid]
    have "\<forall>img. downloadOutcome scraper i u lid \<noteq> Inr (Some img)" by auto
    then have "fulfilledValues (downloadOutcome scraper i u lid # rs) = fulfilledValues rs" for rs
      by (rule fulfilledValues_drop)
    with False a Cons.IH show ?thesis by simp
  qed
qed

lemma downloadImages_urls:
  "map originalUrl (fst (downloadImages scraper urls lid files))
     = map snd (filter (\<lambda>(i, u). downloadSucceeds scraper i u) (enumerate 0 urls))"
  by (simp only: downloadImages_results fulfilledValues_urls)

text \<open>
  Claim C2, amended. When the download of a URL fails (the request fails, the file cannot
  be opened, the body stream ends with an error, or \<open>stat\<close> fails), \<open>downloadImage\<close>
  returns \<open>null\<close>. When moreover the removal of the partial file does not itself fail,
  there is no file at the computed local path afterwards and every other path is as
  before. When the removal fails, its error is only logged and the bytes written stay at
  the local path. \<open>downloadImages\<close> returns one image for each URL whose download
  succeeded, in order, and none for the others.
\<close>

theorem failed_download_cleanup:
  "(imageLocalPath scraper n u lid = Inr path \<and> downloadFails (download scraper n u)
    \<longrightarrow> fst (downloadImage scraper n u lid files) = Inr None)
   \<and> (imageLocalPath scraper n u lid = Inr path \<and> downloadFails (download scraper n u)
      \<and> unlinkError (download scraper n u) = None
    \<longrightarrow> downloadImage scraper n u lid files = (Inr None, files(path := None)))
   \<and> (imageLocalPath scraper n u lid = Inr path
      \<and> axios (download scraper n u) = Inr response
      \<and> openError (download scraper n u) = None
      \<and> (streamError response \<noteq> None \<or> statError (download scraper n u) \<noteq> None)
      \<and> unlinkError (download scraper n u) = Some e
    \<longrightarrow> downloadImage scraper n u lid files = (Inr None, files(path \<mapsto> body response)))
   \<and> map originalUrl (fst (downloadImages scraper urls lid files))
       = map snd (filter (\<lambda>(i, u). downloadSucceeds scraper i u) (enumerate 0 urls))"
  using downloadImage_fails [of scraper n u lid path files]
    downloadImage_fails_unlink_fails [of scraper n u lid path response e files]
    downloadImages_urls [of scraper urls lid files]
  by blast

lemma example_cut_fails:
  "downloadFails (download example_downloader 1 ''https://img/cut'')"
  by (simp add: downloadFails_def example_downloader_def example_scraper_def
      example_download_def imageResponse_def)

lemma example_cut_unlink:
  "unlinkError (download example_downloader 1 ''https://img/cut'') = None"
  by (simp add: example_downloader_def example_scraper_def example_download_def)

lemma example_succeeds:
  "downloadSucceeds example_downloader 0 ''https://img/ok''"
  "\<not> downloadSucceeds example_downloader (Suc 0) ''https://img/cut''"
  "downloadSucceeds example_downloader (Suc (Suc 0)) ''https://img/ok''"
  by (simp_all add: downloadSucceeds_def downloadFails_def example_downloader_def
      example_scraper_def example_download_def example_node_def imageResponse_def)

theorem failed_download_cleanup_witness:
  "imageLocalPath example_downloader 1 ''https://img/cut'' ''L'' = Inr ''/data/images/L_a1.jpg''
   \<and> downloadFails (download example_downloader 1 ''https://img/cut'')
   \<and> unlinkError (download example_downloader 1 ''https://img/cut'') = None
   \<and> downloadImage example_downloader 1 ''https://img/cut'' ''L'' Map.empty = (Inr None, Map.empty)
   \<and> map originalUrl (fst (downloadImages example_downloader
          [''https://img/ok'', ''https://img/cut'', ''https://img/ok''] ''L'' Map.empty))
       = [''https://img/ok'', ''https://img/ok'']"
  using failed_download_cleanup [where scraper = example_downloader and n = 1
      and u = "''https://img/cut''" and lid = "''L''" and files = Map.empty
      and path = "''/data/images/L_a1.jpg''"
      and urls = "[''https://img/ok'', ''https://img/cut'', ''https://img/ok'']"]
    example_cut_path example_cut_fails example_cut_unlink
  by (simp add: enumerate_eq_zip upt_rec example_succeeds)

text \<open>
  Claim C9, as stated: the size recorded is the size read back from the file. For an
  empty file the code falls back to the header: with an empty body and a length header of
  20, the file on disk has no bytes and the size recorded is 20.
\<close>

theorem recorded_size_counterexample:
  "fst (downloadImage example_downloader 0 ''https://img/empty'' ''L'' Map.empty)
     = Inr (Some \<lparr>image_id = ''a0'', listingId = ''L'', filename = ''L_a0.jpg'',
                   originalUrl = ''https://img/empty'', localPath = ''/data/images/L_a0.jpg'',
                   contentType = ''image/png'', size = Fin 20\<rparr>)
   \<and> snd (downloadImage example_downloader 0 ''https://img/empty'' ''L'' Map.empty)
        ''/data/images/L_a0.jpg'' = Some []"
  by (simp add: download_eval parseInt10_def isStrWhiteSpaceChar_def isDecimalDigit_def
      digitsValue_def digitValue_def)

text \<open>
  Claim C9, amended. For every successfully downloaded asset the file at its local path
  holds the body received, and the size recorded is the size of that file whenever the
  file is not empty, whatever the length header says. For an empty file the size recorded
  is the number parsed from the length header, 0 when there is no such header.
\<close>

theorem recorded_size:
  "downloadImage scraper n u lid files = (Inr (Some img), files')
    \<Longrightarrow> \<exists>response. axios (download scraper n u) = Inr response
          \<and> files' (localPath img) = Some (body response)
          \<and> (body response \<noteq> [] \<longrightarrow> size img = Fin (real (length (body response))))
          \<and> (body response = [] \<longrightarrow> size img = parseInt10 (contentLengthHeader response))"
  by (auto simp: downloadImage_def Let_def split: sum.splits prod.splits if_splits
      dest!: downloadTry_Inr)

theorem recorded_size_witness:
  "downloadImage example_downloader 0 ''https://img/ok'' ''L'' Map.empty
     = (Inr (Some \<lparr>image_id = ''a0'', listingId = ''L'', filename = ''L_a0.jpg'',
                    originalUrl = ''https://img/ok'', localPath = ''/data/images/L_a0.jpg'',
                    contentType = ''image/png'', size = Fin 3\<rparr>),
        [''/data/images/L_a0.jpg'' \<mapsto> [1, 2, 3]])
   \<and> axios (download example_downloader 0 ''https://img/ok'') = Inr (imageResponse [1, 2, 3] ''999'')
   \<and> contentLengthHeader (imageResponse [1, 2, 3] ''999'') = ''999''
   \<and> Fin 3 = Fin (real (length [1, 2, 3 :: nat]))"
  using recorded_size [OF example_ok] example_ok
  by (simp add: example_downloader_def example_scraper_def example_download_def
      contentLengthHeader_def imageResponse_def)

end
